theory Spec2Isabelle
  imports Complex_Main "HOL-Library.Sublist"
begin

section \<open>Data model (models/schemas.py)\<close>

text \<open>
  Python \<open>str\<close> values are modelled as \<open>string\<close>; a \<open>char\<close> stands for one code
  point below 256. The pydantic models are records with the field names of the source;
  where two models share a field name the selector is written qualified
  (\<open>CodeGenerationOutput.date\<close>).
\<close>

record CodeGenerationRequest =
  prompt :: string
  language :: string
  "context" :: "string option"

record CodeGenerationOutput =
  date :: string
  language :: string
  code :: string

record CodeLine =
  line :: int
  line_code :: string
  line_explanation :: "string option"

record LineExplanationOutput =
  date :: string
  language :: string
  code :: "CodeLine list"
  explanation :: string

record CodeChunk =
  first_line :: int
  last_line :: int
  line_code :: string
  line_explanation :: "string option"

record CodeChunkOutput =
  date :: string
  language :: string
  code :: "CodeChunk list"
  explanation :: string

text \<open>
  \<open>processing_time_seconds\<close> is a Python float; floats that hold seconds are idealised
  as exact rationals throughout.
\<close>

record OrchestratorResponse =
  request_id :: string
  generated_code :: CodeGenerationOutput
  line_explanations :: LineExplanationOutput
  chunked_code :: CodeChunkOutput
  processing_time_seconds :: rat
  status :: string

text \<open>\<open>validate_line_numbers\<close>: Python's \<open>all(...)\<close> over the list of chunks.\<close>

definition validate_line_numbers :: "CodeChunk list \<Rightarrow> bool" where
  "validate_line_numbers chunks =
     list_all (\<lambda>chunk. first_line chunk \<le> last_line chunk) chunks"


section \<open>Strings and number formatting\<close>

text \<open>\<open>s.split(sep)\<close> for a one-character separator: never returns the empty list.\<close>

fun split :: "char \<Rightarrow> string \<Rightarrow> string list" where
  "split sep [] = [[]]"
| "split sep (c # cs) =
     (if c = sep then [] # split sep cs
      else (c # hd (split sep cs)) # tl (split sep cs))"

text \<open>\<open>sep.join(parts)\<close>.\<close>

fun join :: "string \<Rightarrow> string list \<Rightarrow> string" where
  "join sep [] = []"
| "join sep [p] = p"
| "join sep (p # q # ps) = p @ sep @ join sep (q # ps)"

text \<open>
  \<open>str.isspace\<close> on one code point below 256: tab to carriage return, the four
  separators 0x1C to 0x1F, space, NEL (0x85) and the no-break space (0xA0).
\<close>

definition isspace :: "char \<Rightarrow> bool" where
  "isspace c = (let n = (of_char c :: nat)
                in (9 \<le> n \<and> n \<le> 13) \<or> (28 \<le> n \<and> n \<le> 32) \<or> n = 133 \<or> n = 160)"

text \<open>\<open>s.strip()\<close>: drop leading and trailing whitespace.\<close>

definition strip :: "string \<Rightarrow> string" where
  "strip s = rev (dropWhile isspace (rev (dropWhile isspace s)))"

definition digit_char :: "nat \<Rightarrow> char" where
  "digit_char d = ''0123456789'' ! (d mod 10)"

text \<open>\<open>str(n)\<close> for a non-negative integer, and for any integer.\<close>

fun str_nat :: "nat \<Rightarrow> string" where
  "str_nat n = (if n < 10 then [digit_char n] else str_nat (n div 10) @ [digit_char (n mod 10)])"

declare str_nat.simps [simp del]

definition str_int :: "int \<Rightarrow> string" where
  "str_int i = (if i < 0 then CHR ''-'' # str_nat (nat (- i)) else str_nat (nat i))"

text \<open>
  Rounding to the nearest integer, ties to the even neighbour: the rounding of both
  \<open>round(x, 2)\<close> and the \<open>.2f\<close> format, applied to the hundredths.
\<close>

definition round_half_even :: "rat \<Rightarrow> int" where
  "round_half_even x =
     (let f = \<lfloor>x\<rfloor>; r = x - of_int f
      in if r < 1 / 2 then f
         else if 1 / 2 < r then f + 1
         else if even f then f else f + 1)"

text \<open>\<open>round(x, 2)\<close>.\<close>

definition round2 :: "rat \<Rightarrow> rat" where
  "round2 x = of_int (round_half_even (x * 100)) / 100"

text \<open>\<open>f"{x:.2f}"\<close>: sign, integer part, a point and two digits.\<close>

definition format_2f :: "rat \<Rightarrow> string" where
  "format_2f x =
     (let h = nat (round_half_even (\<bar>x\<bar> * 100))
      in (if x < 0 then ''-'' else []) @ str_nat (h div 100) @ ''.'' @
         [digit_char (h div 10), digit_char h])"

text \<open>The two characters backslash and \<open>n\<close>, as the prompt templates spell a line break.\<close>

definition backslash_n :: string where
  "backslash_n = [CHR 0x5C, CHR ''n'']"


section \<open>The environment: clock, identifiers and the external model\<close>

datatype stage = Generation | Explanation | Chunking

text \<open>
  Every effect of a run is recorded, in order, in a trace: a reading of \<open>time.time()\<close>,
  a reading of \<open>datetime.now()\<close>, a \<open>uuid.uuid4()\<close>, and a call of a stage's agent
  (\<open>agent.run\<close> or \<open>agent.arun\<close>) with its prompt. Writes to standard output are left out.
\<close>

datatype event = TimeRead | DatetimeNow | Uuid4 | AgentRun stage string

type_synonym trace = "event list"

text \<open>
  What an agent call hands back in \<open>response.content\<close>: either an instance of the
  stage's schema already, or something else, for which the stage calls the schema's
  constructor; \<open>Construct r\<close> carries what that constructor does (\<open>Inl\<close> the text of
  the exception it raises, \<open>Inr\<close> the object it builds).
\<close>

datatype 'a content = Instance 'a | Construct "string + 'a"

fun extract_content :: "'a content \<Rightarrow> string + 'a" where
  "extract_content (Instance output) = Inr output"
| "extract_content (Construct r) = r"

text \<open>
  The text of the exception raised inside the \<open>try\<close> block of a stage, if any, for a
  given outcome of the agent call: raised by the call itself or by the schema's constructor.
\<close>

fun raised :: "string + 'a content \<Rightarrow> string option" where
  "raised (Inl e) = Some e"
| "raised (Inr (Construct (Inl e))) = Some e"
| "raised (Inr c) = None"

text \<open>
  The collaborators are oracles that may depend on everything that happened before.
  An agent answers a prompt with \<open>Inl\<close> the text of the exception it raises or
  \<open>Inr\<close> the content of its response.
\<close>

record env =
  time_time :: "trace \<Rightarrow> rat"
  datetime_now_isoformat :: "trace \<Rightarrow> string"
  uuid4 :: "trace \<Rightarrow> string"
  generator_run :: "trace \<Rightarrow> string \<Rightarrow> string + CodeGenerationOutput content"
  explainer_run :: "trace \<Rightarrow> string \<Rightarrow> string + LineExplanationOutput content"
  chunker_run :: "trace \<Rightarrow> string \<Rightarrow> string + CodeChunkOutput content"

text \<open>The stages an agent was called for, in order.\<close>

fun agent_calls :: "trace \<Rightarrow> stage list" where
  "agent_calls [] = []"
| "agent_calls (AgentRun s p # tr) = s # agent_calls tr"
| "agent_calls (e # tr) = agent_calls tr"


section \<open>Stage 1: core/code_generator.py\<close>

definition CodeGeneratorAgent_build_prompt :: "CodeGenerationRequest \<Rightarrow> string" where
  "CodeGeneratorAgent_build_prompt request =
     join [CHR 0x0A]
       ([''Generate '' @ CodeGenerationRequest.language request @ '' code for the following request:'',
         '''',
         prompt request]
        @ (case context request of
             None \<Rightarrow> []
           | Some c \<Rightarrow> if c = [] then [] else ['''', ''Additional context: '' @ c])
        @ ['''',
           ''Important formatting requirements:'',
           ''- Use '' @ backslash_n @ '' for single line breaks'',
           ''- Use '' @ backslash_n @ backslash_n @ '' for blank lines (double line breaks)'',
           ''- Ensure code is syntactically correct and follows best practices'',
           ''- Include helpful comments for educational purposes'',
           ''- Return valid '' @ CodeGenerationRequest.language request @ '' code only''])"

text \<open>
  \<open>generate_code\<close> and \<open>agenerate_code\<close> differ in the prefix of the exception they
  raise only; \<open>generate_with\<close> is their common body.
\<close>

definition generate_with ::
  "string \<Rightarrow> env \<Rightarrow> CodeGenerationRequest \<Rightarrow> trace \<Rightarrow> (string + CodeGenerationOutput) \<times> trace" where
  "generate_with failed env request tr =
     (let current_date = datetime_now_isoformat env tr;
          tr1 = tr @ [DatetimeNow];
          p = CodeGeneratorAgent_build_prompt request;
          tr2 = tr1 @ [AgentRun Generation p]
      in case generator_run env tr1 p of
           Inl e \<Rightarrow> (Inl (failed @ e), tr2)
         | Inr content \<Rightarrow>
             (case extract_content content of
                Inl e \<Rightarrow> (Inl (failed @ e), tr2)
              | Inr output \<Rightarrow>
                  (let output1 = (if CodeGenerationOutput.date output = []
                                  then output\<lparr>CodeGenerationOutput.date := current_date\<rparr>
                                  else output);
                       output2 = (if CodeGenerationOutput.language output1 \<noteq> CodeGenerationRequest.language request
                                  then output1\<lparr>CodeGenerationOutput.language := CodeGenerationRequest.language request\<rparr>
                                  else output1)
                   in (Inr output2, tr2))))"

definition generate_code ::
  "env \<Rightarrow> CodeGenerationRequest \<Rightarrow> trace \<Rightarrow> (string + CodeGenerationOutput) \<times> trace" where
  "generate_code = generate_with ''Code generation failed: ''"

definition agenerate_code ::
  "env \<Rightarrow> CodeGenerationRequest \<Rightarrow> trace \<Rightarrow> (string + CodeGenerationOutput) \<times> trace" where
  "agenerate_code = generate_with ''Async code generation failed: ''"


section \<open>Stage 2: core/line_explainer.py\<close>

definition LineExplainerAgent_build_prompt :: "CodeGenerationOutput \<Rightarrow> string" where
  "LineExplainerAgent_build_prompt code_output =
     (let lines = split (CHR 0x0A) (CodeGenerationOutput.code code_output)
      in join [CHR 0x0A]
           [''Analyze this '' @ CodeGenerationOutput.language code_output
              @ '' code and provide line-by-line educational explanations:'',
            '''',
            ''Code to explain:'',
            ''```'' @ CodeGenerationOutput.language code_output,
            CodeGenerationOutput.code code_output,
            ''```'',
            '''',
            ''For each line of code:'',
            ''1. Identify the line number (starting from 1)'',
            ''2. Extract the exact code from that line'',
            ''3. Provide an educational explanation (or null for blank/empty lines)'',
            '''',
            ''Important guidelines:'',
            ''- Blank lines or lines with only whitespace should have line_explanation set to null'',
            ''- Explain WHY the code does something, not just WHAT it does'',
            ''- Use beginner-friendly language'',
            ''- Break down complex concepts into simple terms'',
            ''- Focus on teaching and helping learners understand'',
            '''',
            ''Also provide an overall explanation of what the entire code does.'',
            '''',
            ''The code has '' @ str_nat (length lines) @ '' line(s) total.''])"

definition explain_with ::
  "string \<Rightarrow> env \<Rightarrow> CodeGenerationOutput \<Rightarrow> trace \<Rightarrow> (string + LineExplanationOutput) \<times> trace" where
  "explain_with failed env code_output tr =
     (let p = LineExplainerAgent_build_prompt code_output;
          tr1 = tr @ [AgentRun Explanation p]
      in case explainer_run env tr p of
           Inl e \<Rightarrow> (Inl (failed @ e), tr1)
         | Inr content \<Rightarrow>
             (case extract_content content of
                Inl e \<Rightarrow> (Inl (failed @ e), tr1)
              | Inr output \<Rightarrow>
                  (Inr (output\<lparr>LineExplanationOutput.date := CodeGenerationOutput.date code_output,
                               LineExplanationOutput.language := CodeGenerationOutput.language code_output\<rparr>),
                   tr1)))"

definition explain_code ::
  "env \<Rightarrow> CodeGenerationOutput \<Rightarrow> trace \<Rightarrow> (string + LineExplanationOutput) \<times> trace" where
  "explain_code = explain_with ''Line explanation failed: ''"

definition aexplain_code ::
  "env \<Rightarrow> CodeGenerationOutput \<Rightarrow> trace \<Rightarrow> (string + LineExplanationOutput) \<times> trace" where
  "aexplain_code = explain_with ''Async line explanation failed: ''"


section \<open>Stage 3: core/code_chunker.py\<close>

text \<open>\<open>line.line_explanation or "blank line"\<close>: \<open>None\<close> and the empty string are falsy.\<close>

definition lines_context :: "CodeLine list \<Rightarrow> string list" where
  "lines_context ls =
     map (\<lambda>l. ''Line '' @ str_int (line l) @ '': '' @ CodeLine.line_code l @ '' - '' @
               (case CodeLine.line_explanation l of
                  None \<Rightarrow> ''blank line''
                | Some e \<Rightarrow> if e = [] then ''blank line'' else e)) ls"

definition CodeChunkerAgent_build_prompt :: "LineExplanationOutput \<Rightarrow> string" where
  "CodeChunkerAgent_build_prompt line_output =
     join [CHR 0x0A]
       ([''Group this '' @ LineExplanationOutput.language line_output
           @ '' code into logical, educational chunks:'',
         '''',
         ''Line-by-line breakdown:'']
        @ lines_context (LineExplanationOutput.code line_output)
        @ ['''',
           ''Overall code purpose:'',
           LineExplanationOutput.explanation line_output,
           '''',
           ''Grouping guidelines:'',
           ''- Group all related imports together'',
           ''- Keep class definitions and their methods together (or separate if large)'',
           ''- Group related function definitions'',
           ''- Separate main execution logic'',
           ''- Group related variable declarations or setup code'',
           ''- Each chunk should represent a complete concept'',
           '''',
           ''For each chunk, specify:'',
           ''- first_line: starting line number (1-indexed)'',
           ''- last_line: ending line number (inclusive)'',
           ''- line_code: the actual code from first_line to last_line (preserve ''
              @ backslash_n @ '' line breaks)'',
           ''- line_explanation: why these lines are grouped together and what they accomplish'',
           '''',
           ''Ensure chunks don't overlap and cover all lines sequentially.''])"

definition chunk_with ::
  "string \<Rightarrow> env \<Rightarrow> LineExplanationOutput \<Rightarrow> trace \<Rightarrow> (string + CodeChunkOutput) \<times> trace" where
  "chunk_with failed env line_output tr =
     (let p = CodeChunkerAgent_build_prompt line_output;
          tr1 = tr @ [AgentRun Chunking p]
      in case chunker_run env tr p of
           Inl e \<Rightarrow> (Inl (failed @ e), tr1)
         | Inr content \<Rightarrow>
             (case extract_content content of
                Inl e \<Rightarrow> (Inl (failed @ e), tr1)
              | Inr output \<Rightarrow>
                  (Inr (output\<lparr>CodeChunkOutput.date := LineExplanationOutput.date line_output,
                               CodeChunkOutput.language := LineExplanationOutput.language line_output,
                               CodeChunkOutput.explanation := LineExplanationOutput.explanation line_output\<rparr>),
                   tr1)))"

definition chunk_code ::
  "env \<Rightarrow> LineExplanationOutput \<Rightarrow> trace \<Rightarrow> (string + CodeChunkOutput) \<times> trace" where
  "chunk_code = chunk_with ''Code chunking failed: ''"

definition achunk_code ::
  "env \<Rightarrow> LineExplanationOutput \<Rightarrow> trace \<Rightarrow> (string + CodeChunkOutput) \<times> trace" where
  "achunk_code = chunk_with ''Async code chunking failed: ''"


section \<open>The orchestrator: core/orchestrator.py\<close>

text \<open>
  The \<open>except\<close> branch: read the clock again, build the message and raise. An exception
  carries its message and nothing else, so no stage output leaves a failed run.
\<close>

definition orchestration_failed ::
  "string \<Rightarrow> env \<Rightarrow> rat \<Rightarrow> string \<Rightarrow> trace \<Rightarrow> (string + OrchestratorResponse) \<times> trace" where
  "orchestration_failed failed_after env start_time e tr =
     (let processing_time = time_time env tr - start_time;
          error_message = failed_after @ format_2f processing_time @ ''s: '' @ e
      in (Inl error_message, tr @ [TimeRead]))"

text \<open>
  \<open>process_request\<close> and \<open>aprocess_request\<close> share their body: the second awaits the
  async method of each stage and words its failure differently.
\<close>

definition process_with ::
  "string
   \<Rightarrow> (env \<Rightarrow> CodeGenerationRequest \<Rightarrow> trace \<Rightarrow> (string + CodeGenerationOutput) \<times> trace)
   \<Rightarrow> (env \<Rightarrow> CodeGenerationOutput \<Rightarrow> trace \<Rightarrow> (string + LineExplanationOutput) \<times> trace)
   \<Rightarrow> (env \<Rightarrow> LineExplanationOutput \<Rightarrow> trace \<Rightarrow> (string + CodeChunkOutput) \<times> trace)
   \<Rightarrow> env \<Rightarrow> CodeGenerationRequest \<Rightarrow> trace \<Rightarrow> (string + OrchestratorResponse) \<times> trace" where
  "process_with failed_after gen expl chunk env request tr =
     (let start_time = time_time env tr;
          tr1 = tr @ [TimeRead];
          rid = uuid4 env tr1;
          tr2 = tr1 @ [Uuid4]
      in case gen env request tr2 of
           (Inl e, tr3) \<Rightarrow> orchestration_failed failed_after env start_time e tr3
         | (Inr code_output, tr3) \<Rightarrow>
             (case expl env code_output tr3 of
                (Inl e, tr4) \<Rightarrow> orchestration_failed failed_after env start_time e tr4
              | (Inr line_output, tr4) \<Rightarrow>
                  (case chunk env line_output tr4 of
                     (Inl e, tr5) \<Rightarrow> orchestration_failed failed_after env start_time e tr5
                   | (Inr chunk_output, tr5) \<Rightarrow>
                       (let processing_time = time_time env tr5 - start_time
                        in (Inr \<lparr>request_id = rid,
                                  generated_code = code_output,
                                  line_explanations = line_output,
                                  chunked_code = chunk_output,
                                  processing_time_seconds = round2 processing_time,
                                  status = ''success''\<rparr>,
                            tr5 @ [TimeRead])))))"

definition process_request ::
  "env \<Rightarrow> CodeGenerationRequest \<Rightarrow> trace \<Rightarrow> (string + OrchestratorResponse) \<times> trace" where
  "process_request =
     process_with ''Orchestration failed after '' generate_code explain_code chunk_code"

definition aprocess_request ::
  "env \<Rightarrow> CodeGenerationRequest \<Rightarrow> trace \<Rightarrow> (string + OrchestratorResponse) \<times> trace" where
  "aprocess_request =
     process_with ''Async orchestration failed after '' agenerate_code aexplain_code achunk_code"


section \<open>The endpoint POST /api/v1/generate: server.py\<close>

text \<open>
  A JSON value in a field of the request body: null, a string, or anything else
  (a number, a boolean, an array, an object).
\<close>

datatype json = JNull | JString string | JOther

type_synonym body = "string \<rightharpoonup> json"

text \<open>
  The schema \<open>CodeGenerationRequest\<close> applied to a body: \<open>prompt\<close> is a required
  string, \<open>language\<close> a string with the default \<open>python\<close>, \<open>context\<close> a string or
  null with the default null. \<open>None\<close> is a validation error.
\<close>

definition validate_body :: "body \<Rightarrow> CodeGenerationRequest option" where
  "validate_body b =
     (case b ''prompt'' of
        Some (JString p) \<Rightarrow>
          (case (case b ''language'' of
                   None \<Rightarrow> Some ''python''
                 | Some (JString l) \<Rightarrow> Some l
                 | Some _ \<Rightarrow> None) of
             None \<Rightarrow> None
           | Some l \<Rightarrow>
               (case b ''context'' of
                  None \<Rightarrow> Some \<lparr>prompt = p, language = l, context = None\<rparr>
                | Some JNull \<Rightarrow> Some \<lparr>prompt = p, language = l, context = None\<rparr>
                | Some (JString c) \<Rightarrow> Some \<lparr>prompt = p, language = l, context = Some c\<rparr>
                | Some JOther \<Rightarrow> None))
      | _ \<Rightarrow> None)"

text \<open>
  The responses of the endpoint: 200 with the response model, an \<open>HTTPException\<close> with
  its status code and detail, or the framework's 422 for a body the schema rejects.
\<close>

datatype http_response =
  OK OrchestratorResponse
| HTTPException nat string
| RequestValidationError

fun status_code :: "http_response \<Rightarrow> nat" where
  "status_code (OK r) = 200"
| "status_code (HTTPException c d) = c"
| "status_code RequestValidationError = 422"

definition generate_educational_code ::
  "env \<Rightarrow> CodeGenerationRequest \<Rightarrow> trace \<Rightarrow> http_response \<times> trace" where
  "generate_educational_code env request tr =
     (if prompt request = [] \<or> length (strip (prompt request)) = 0
      then (HTTPException 400 ''Prompt cannot be empty'', tr)
      else case aprocess_request env request tr of
             (Inr response, tr') \<Rightarrow> (OK response, tr')
           | (Inl e, tr') \<Rightarrow> (HTTPException 500 (''Code generation failed: '' @ e), tr'))"

text \<open>The framework validates the body against the schema before it calls the handler.\<close>

definition post_generate :: "env \<Rightarrow> body \<Rightarrow> trace \<Rightarrow> http_response \<times> trace" where
  "post_generate env b tr =
     (case validate_body b of
        None \<Rightarrow> (RequestValidationError, tr)
      | Some request \<Rightarrow> generate_educational_code env request tr)"


section \<open>Properties the specification names\<close>

text \<open>
  A line is blank when it is empty or whitespace-only. The rule the explanation stage asks
  of the model: the explanation is null exactly on the blank lines.
\<close>

definition blank :: "string \<Rightarrow> bool" where
  "blank s = (strip s = [])"

definition blank_lines_null :: "CodeLine list \<Rightarrow> bool" where
  "blank_lines_null ls =
     list_all (\<lambda>l. blank (CodeLine.line_code l) = (CodeLine.line_explanation l = None)) ls"

text \<open>
  The message shape the specification gives for a failed stage: a stage kind, the word
  \<open>failed\<close>, and the underlying message.
\<close>

definition stage_kind_message :: "string \<Rightarrow> string \<Rightarrow> string" where
  "stage_kind_message kind underlying = kind @ '' failed: '' @ underlying"

text \<open>How the asynchronous method of each stage words its kind when it raises.\<close>

fun stage_kind :: "stage \<Rightarrow> string" where
  "stage_kind Generation = ''Async code generation''"
| "stage_kind Explanation = ''Async line explanation''"
| "stage_kind Chunking = ''Async code chunking''"


section \<open>Concrete collaborators\<close>

text \<open>
  An environment whose agents answer every prompt in the same way, with a given clock.
\<close>

definition fixed_env ::
  "(trace \<Rightarrow> rat) \<Rightarrow> (string + CodeGenerationOutput content)
   \<Rightarrow> (string + LineExplanationOutput content) \<Rightarrow> (string + CodeChunkOutput content) \<Rightarrow> env" where
  "fixed_env clock g e c =
     \<lparr>time_time = clock,
      datetime_now_isoformat = (\<lambda>tr. ''2025-10-31T12:00:00''),
      uuid4 = (\<lambda>tr. ''123e4567-e89b-12d3-a456-426614174000''),
      generator_run = (\<lambda>tr p. g),
      explainer_run = (\<lambda>tr p. e),
      chunker_run = (\<lambda>tr p. c)\<rparr>"

text \<open>
  Two clocks: one that advances by 1/48 of a second with every recorded effect, and one
  that is set back by a second with every recorded effect.
\<close>

definition forward_clock :: "trace \<Rightarrow> rat" where
  "forward_clock tr = of_nat (length tr) / 48"

definition backward_clock :: "trace \<Rightarrow> rat" where
  "backward_clock tr = 100 - of_nat (length tr)"

definition add_request :: CodeGenerationRequest where
  "add_request = \<lparr>prompt = ''Create a function to add two numbers'',
                   language = ''python'', context = None\<rparr>"

text \<open>
  Answers of the model that disregard what the stages ask for: no date and another
  language name in stage 1; line numbers out of sequence, an explained blank line and an
  unexplained code line in stage 2; a reversed and an overlapping range, out of order,
  and other metadata in stage 3.
\<close>

definition model_generated :: CodeGenerationOutput where
  "model_generated = \<lparr>CodeGenerationOutput.date = [],
                       CodeGenerationOutput.language = ''Python 3'',
                       CodeGenerationOutput.code = ''def add(a, b):'' @ [CHR 0x0A] @ ''    return a + b''\<rparr>"

definition model_explained :: LineExplanationOutput where
  "model_explained =
     \<lparr>LineExplanationOutput.date = ''1999-01-01T00:00:00'',
      LineExplanationOutput.language = ''ruby'',
      LineExplanationOutput.code =
        [\<lparr>line = 5, CodeLine.line_code = ''def add(a, b):'',
          CodeLine.line_explanation = None\<rparr>,
         \<lparr>line = 3, CodeLine.line_code = ''   '',
          CodeLine.line_explanation = Some ''Indentation only''\<rparr>],
      LineExplanationOutput.explanation = ''Adds two numbers''\<rparr>"

definition model_chunked :: CodeChunkOutput where
  "model_chunked =
     \<lparr>date = ''1970-01-01T00:00:00'', language = ''perl'',
      code = [\<lparr>first_line = 4, last_line = 2, line_code = ''return'', line_explanation = None\<rparr>,
              \<lparr>first_line = 1, last_line = 3, line_code = ''def'', line_explanation = Some ''All of it''\<rparr>],
      explanation = ''Something else''\<rparr>"

text \<open>Every stage succeeds; the first one to fail with \<open>boom\<close> is stage 1, 2 or 3.\<close>

definition ok_env :: "(trace \<Rightarrow> rat) \<Rightarrow> env" where
  "ok_env clock = fixed_env clock (Inr (Instance model_generated))
                    (Inr (Construct (Inr model_explained))) (Inr (Instance model_chunked))"

fun failing_env :: "stage \<Rightarrow> env" where
  "failing_env Generation =
     fixed_env forward_clock (Inl ''boom'')
       (Inr (Instance model_explained)) (Inr (Instance model_chunked))"
| "failing_env Explanation =
     fixed_env forward_clock (Inr (Instance model_generated))
       (Inl ''boom'') (Inr (Instance model_chunked))"
| "failing_env Chunking =
     fixed_env forward_clock (Inr (Instance model_generated))
       (Inr (Instance model_explained)) (Inr (Construct (Inl ''boom'')))"

text \<open>
  What a run of \<open>add_request\<close> returns when every stage succeeds and the clock advances:
  six effects lie between the two clock readings, 0.125 seconds, rounded to 0.12.
\<close>

definition add_response :: OrchestratorResponse where
  "add_response =
     \<lparr>request_id = ''123e4567-e89b-12d3-a456-426614174000'',
      generated_code =
        model_generated\<lparr>CodeGenerationOutput.date := ''2025-10-31T12:00:00'',
                        CodeGenerationOutput.language := ''python''\<rparr>,
      line_explanations =
        model_explained\<lparr>LineExplanationOutput.date := ''2025-10-31T12:00:00'',
                        LineExplanationOutput.language := ''python''\<rparr>,
      chunked_code =
        model_chunked\<lparr>CodeChunkOutput.date := ''2025-10-31T12:00:00'',
                      CodeChunkOutput.language := ''python'',
                      CodeChunkOutput.explanation := ''Adds two numbers''\<rparr>,
      processing_time_seconds = 3 / 25,
      status = ''success''\<rparr>"

text \<open>The trace a stage leaves behind when it starts from the trace \<open>tr\<close>.\<close>

definition after_generation :: "CodeGenerationRequest \<Rightarrow> trace \<Rightarrow> trace" where
  "after_generation request tr =
     tr @ [DatetimeNow, AgentRun Generation (CodeGeneratorAgent_build_prompt request)]"

definition after_explanation :: "CodeGenerationOutput \<Rightarrow> trace \<Rightarrow> trace" where
  "after_explanation code_output tr =
     tr @ [AgentRun Explanation (LineExplainerAgent_build_prompt code_output)]"

definition after_chunking :: "LineExplanationOutput \<Rightarrow> trace \<Rightarrow> trace" where
  "after_chunking line_output tr =
     tr @ [AgentRun Chunking (CodeChunkerAgent_build_prompt line_output)]"


section \<open>Auxiliary facts\<close>

subsection \<open>Strings\<close>

lemma split_length: "length (split sep s) = count_list s sep + 1"
  by (induction s) auto

lemma explain_prompt_suffix:
  "suffix (''The code has ''
             @ str_nat (length (split (CHR 0x0A) (CodeGenerationOutput.code c)))
             @ '' line(s) total.'')
     (LineExplainerAgent_build_prompt c)"
  unfolding LineExplainerAgent_build_prompt_def Let_def
  by (simp add: suffix_def)

lemma sublist_join: "p \<in> set ps \<Longrightarrow> sublist p (join sep ps)"
proof (induction sep ps rule: join.induct)
  case (1 sep)
  then show ?case by simp
next
  case (2 sep q)
  then show ?case by simp
next
  case (3 sep q r ps)
  show ?case
  proof (cases "p = q")
    case True
    then show ?thesis by (simp add: sublist_append_rightI)
  next
    case False
    with 3 have "sublist p (join sep (r # ps))" by simp
    then obtain pre post where "join sep (r # ps) = pre @ p @ post"
      unfolding sublist_def by blast
    then have "join sep (q # r # ps) = (q @ sep @ pre) @ p @ post"
      by simp
    then show ?thesis
      unfolding sublist_def by blast
  qed
qed

lemma explain_prompt_guideline:
  "sublist ''- Blank lines or lines with only whitespace should have line_explanation set to null''
     (LineExplainerAgent_build_prompt c)"
  unfolding LineExplainerAgent_build_prompt_def Let_def
  by (rule sublist_join) simp

lemma str_nat_Suc_0: "str_nat (Suc 0) = ''1''"
  by (simp add: str_nat.simps digit_char_def)

lemma dropWhile_all: "(dropWhile P xs = []) = list_all P xs"
  by (induction xs) auto

lemma strip_empty_iff: "(strip s = []) = list_all isspace s"
proof (cases "dropWhile isspace s = []")
  case True
  have "strip s = []"
    unfolding strip_def True by simp
  moreover from True have "list_all isspace s"
    by (simp only: dropWhile_all)
  ultimately show ?thesis by simp
next
  case False
  then have "\<not> isspace (hd (dropWhile isspace s))"
    by (rule hd_dropWhile)
  moreover from False have "hd (dropWhile isspace s) \<in> set (rev (dropWhile isspace s))"
    by simp
  ultimately have "\<not> list_all isspace (rev (dropWhile isspace s))"
    unfolding list_all_iff by blast
  then have "strip s \<noteq> []"
    by (simp add: strip_def dropWhile_all del: dropWhile_eq_Nil_conv)
  moreover from False have "\<not> list_all isspace s"
    by (simp add: dropWhile_all del: dropWhile_eq_Nil_conv)
  ultimately show ?thesis by simp
qed

lemma blank_prompt_iff:
  "(p = [] \<or> length (strip p) = 0) = list_all isspace p"
  using strip_empty_iff [of p] by auto

subsection \<open>Rounding\<close>

lemma round_half_even_nonneg: "0 \<le> x \<Longrightarrow> 0 \<le> round_half_even x"
  by (simp add: round_half_even_def Let_def)

lemma round2_nonneg: "0 \<le> x \<Longrightarrow> 0 \<le> round2 x"
  by (simp add: round2_def round_half_even_nonneg)


subsection \<open>Traces\<close>

lemma agent_calls_append: "agent_calls (xs @ ys) = agent_calls xs @ agent_calls ys"
  by (induction xs rule: agent_calls.induct) auto

lemma generate_with_trace:
  "snd (generate_with failed env request tr) = after_generation request tr"
  by (simp add: generate_with_def after_generation_def Let_def split: sum.splits)

lemma explain_with_trace:
  "snd (explain_with failed env code_output tr) = after_explanation code_output tr"
  by (simp add: explain_with_def after_explanation_def Let_def split: sum.splits)

lemma chunk_with_trace:
  "snd (chunk_with failed env line_output tr) = after_chunking line_output tr"
  by (simp add: chunk_with_def after_chunking_def Let_def split: sum.splits)

lemma agent_calls_after:
  "agent_calls (after_generation request tr) = agent_calls tr @ [Generation]"
  "agent_calls (after_explanation code_output tr) = agent_calls tr @ [Explanation]"
  "agent_calls (after_chunking line_output tr) = agent_calls tr @ [Chunking]"
  by (simp_all add: after_generation_def after_explanation_def after_chunking_def
        agent_calls_append)

subsection \<open>What a stage returns\<close>

lemma generate_with_ok:
  assumes "generator_run env (tr @ [DatetimeNow]) (CodeGeneratorAgent_build_prompt request) = Inr content"
    and "extract_content content = Inr out"
  shows "fst (generate_with failed env request tr)
           = Inr (out\<lparr>CodeGenerationOutput.date :=
                            (if CodeGenerationOutput.date out = [] then datetime_now_isoformat env tr
                             else CodeGenerationOutput.date out),
                          CodeGenerationOutput.language := CodeGenerationRequest.language request\<rparr>)"
  using assms
  by (auto simp add: generate_with_def Let_def split: sum.splits if_splits)

lemma generate_with_Inr:
  assumes "generate_with failed env request tr = (Inr out', tr')"
  shows "CodeGenerationOutput.language out' = CodeGenerationRequest.language request"
  using assms
  by (auto simp add: generate_with_def Let_def split: sum.splits if_splits)

lemma explain_with_ok:
  assumes "explainer_run env tr (LineExplainerAgent_build_prompt code_output) = Inr content"
    and "extract_content content = Inr out"
  shows "fst (explain_with failed env code_output tr)
           = Inr (out\<lparr>LineExplanationOutput.date := CodeGenerationOutput.date code_output,
                          LineExplanationOutput.language := CodeGenerationOutput.language code_output\<rparr>)"
  using assms
  by (simp add: explain_with_def Let_def)

lemma explain_with_Inr:
  assumes "explain_with failed env code_output tr = (Inr out', tr')"
  shows "\<exists>content out.
           explainer_run env tr (LineExplainerAgent_build_prompt code_output) = Inr content
           \<and> extract_content content = Inr out
           \<and> out' = out\<lparr>LineExplanationOutput.date := CodeGenerationOutput.date code_output,
                          LineExplanationOutput.language := CodeGenerationOutput.language code_output\<rparr>"
  using assms
  by (auto simp add: explain_with_def Let_def split: sum.splits)

lemma chunk_with_ok:
  assumes "chunker_run env tr (CodeChunkerAgent_build_prompt line_output) = Inr content"
    and "extract_content content = Inr out"
  shows "fst (chunk_with failed env line_output tr)
           = Inr (out\<lparr>CodeChunkOutput.date := LineExplanationOutput.date line_output,
                          CodeChunkOutput.language := LineExplanationOutput.language line_output,
                          CodeChunkOutput.explanation := LineExplanationOutput.explanation line_output\<rparr>)"
  using assms
  by (simp add: chunk_with_def Let_def)

lemma chunk_with_Inr:
  assumes "chunk_with failed env line_output tr = (Inr out', tr')"
  shows "\<exists>content out.
           chunker_run env tr (CodeChunkerAgent_build_prompt line_output) = Inr content
           \<and> extract_content content = Inr out
           \<and> out' = out\<lparr>CodeChunkOutput.date := LineExplanationOutput.date line_output,
                          CodeChunkOutput.language := LineExplanationOutput.language line_output,
                          CodeChunkOutput.explanation := LineExplanationOutput.explanation line_output\<rparr>"
  using assms
  by (auto simp add: chunk_with_def Let_def split: sum.splits)

subsection \<open>What the orchestrator returns\<close>

lemma process_with_Inr:
  assumes "process_with failed_after gen expl chunk env request tr = (Inr r, tr')"
  shows "\<exists>tr3 tr4 tr5.
           gen env request (tr @ [TimeRead, Uuid4]) = (Inr (generated_code r), tr3)
           \<and> expl env (generated_code r) tr3 = (Inr (line_explanations r), tr4)
           \<and> chunk env (line_explanations r) tr4 = (Inr (chunked_code r), tr5)
           \<and> processing_time_seconds r = round2 (time_time env tr5 - time_time env tr)
           \<and> tr' = tr5 @ [TimeRead]"
  using assms
  by (auto simp add: process_with_def orchestration_failed_def Let_def
        split: sum.splits prod.splits)

text \<open>The agent calls of a run whose stages are the three stage bodies.\<close>

lemma stage_calls_1:
  assumes "generate_with f1 env request (tr @ [TimeRead, Uuid4]) = (x, tr3)"
  shows "agent_calls (tr3 @ [TimeRead]) = agent_calls tr @ [Generation]"
proof -
  from assms have "tr3 = after_generation request (tr @ [TimeRead, Uuid4])"
    using generate_with_trace [of f1 env request "tr @ [TimeRead, Uuid4]"] by simp
  then show ?thesis
    by (simp add: agent_calls_after agent_calls_append)
qed

lemma stage_calls_2:
  assumes "generate_with f1 env request (tr @ [TimeRead, Uuid4]) = (x, tr3)"
    and "explain_with f2 env code_output tr3 = (y, tr4)"
  shows "agent_calls (tr4 @ [TimeRead]) = agent_calls tr @ [Generation, Explanation]"
proof -
  from assms(1) have "tr3 = after_generation request (tr @ [TimeRead, Uuid4])"
    using generate_with_trace [of f1 env request "tr @ [TimeRead, Uuid4]"] by simp
  moreover from assms(2) have "tr4 = after_explanation code_output tr3"
    using explain_with_trace [of f2 env code_output tr3] by simp
  ultimately show ?thesis
    by (simp add: agent_calls_after agent_calls_append)
qed

lemma stage_calls_3:
  assumes "generate_with f1 env request (tr @ [TimeRead, Uuid4]) = (x, tr3)"
    and "explain_with f2 env code_output tr3 = (y, tr4)"
    and "chunk_with f3 env line_output tr4 = (z, tr5)"
  shows "agent_calls (tr5 @ [TimeRead]) = agent_calls tr @ [Generation, Explanation, Chunking]"
proof -
  from assms(1) have "tr3 = after_generation request (tr @ [TimeRead, Uuid4])"
    using generate_with_trace [of f1 env request "tr @ [TimeRead, Uuid4]"] by simp
  moreover from assms(2) have "tr4 = after_explanation code_output tr3"
    using explain_with_trace [of f2 env code_output tr3] by simp
  moreover from assms(3) have "tr5 = after_chunking line_output tr4"
    using chunk_with_trace [of f3 env line_output tr4] by simp
  ultimately show ?thesis
    by (simp add: agent_calls_after agent_calls_append)
qed

text \<open>Both orchestrator methods are the common body at the stage bodies.\<close>

lemma orchestrator_unfold:
  assumes "process_request env request tr = res \<or> aprocess_request env request tr = res"
  shows "\<exists>fa f1 f2 f3.
           process_with fa (generate_with f1) (explain_with f2) (chunk_with f3) env request tr = res"
  using assms
  unfolding process_request_def aprocess_request_def generate_code_def agenerate_code_def
    explain_code_def aexplain_code_def chunk_code_def achunk_code_def
  by blast

lemma pinned_fields:
  assumes "process_with fa (generate_with f1) (explain_with f2) (chunk_with f3) env request tr
             = (Inr r, tr')"
  shows "CodeGenerationOutput.language (generated_code r) = CodeGenerationRequest.language request"
    and "LineExplanationOutput.language (line_explanations r)
           = CodeGenerationOutput.language (generated_code r)"
    and "CodeChunkOutput.language (chunked_code r)
           = LineExplanationOutput.language (line_explanations r)"
    and "LineExplanationOutput.date (line_explanations r)
           = CodeGenerationOutput.date (generated_code r)"
    and "CodeChunkOutput.date (chunked_code r) = LineExplanationOutput.date (line_explanations r)"
    and "CodeChunkOutput.explanation (chunked_code r)
           = LineExplanationOutput.explanation (line_explanations r)"
proof -
  from process_with_Inr [OF assms] obtain tr3 tr4 tr5 where
    g: "generate_with f1 env request (tr @ [TimeRead, Uuid4]) = (Inr (generated_code r), tr3)" and
    e: "explain_with f2 env (generated_code r) tr3 = (Inr (line_explanations r), tr4)" and
    c: "chunk_with f3 env (line_explanations r) tr4 = (Inr (chunked_code r), tr5)"
    by blast
  from generate_with_Inr [OF g]
  show "CodeGenerationOutput.language (generated_code r) = CodeGenerationRequest.language request" .
  from explain_with_Inr [OF e] obtain lo where
    lo: "line_explanations r
           = lo\<lparr>LineExplanationOutput.date := CodeGenerationOutput.date (generated_code r),
                 LineExplanationOutput.language := CodeGenerationOutput.language (generated_code r)\<rparr>"
    by blast
  from chunk_with_Inr [OF c] obtain co where
    co: "chunked_code r
           = co\<lparr>CodeChunkOutput.date := LineExplanationOutput.date (line_explanations r),
                 CodeChunkOutput.language := LineExplanationOutput.language (line_explanations r),
                 CodeChunkOutput.explanation := LineExplanationOutput.explanation (line_explanations r)\<rparr>"
    by blast
  show "LineExplanationOutput.language (line_explanations r)
           = CodeGenerationOutput.language (generated_code r)"
    by (subst lo) simp
  show "LineExplanationOutput.date (line_explanations r)
           = CodeGenerationOutput.date (generated_code r)"
    by (subst lo) simp
  show "CodeChunkOutput.language (chunked_code r)
           = LineExplanationOutput.language (line_explanations r)"
    by (subst co) simp
  show "CodeChunkOutput.date (chunked_code r) = LineExplanationOutput.date (line_explanations r)"
    by (subst co) simp
  show "CodeChunkOutput.explanation (chunked_code r)
           = LineExplanationOutput.explanation (line_explanations r)"
    by (subst co) simp
qed

subsection \<open>Concrete runs\<close>

lemma round2_values: "round2 (1 / 8) = 3 / 25" "round2 (- 6) = - 6"
  by code_simp+

lemma format_2f_values:
  "format_2f (1 / 12) = ''0.08''" "format_2f (5 / 48) = ''0.10''" "format_2f (1 / 8) = ''0.12''"
  by code_simp+

lemmas run_defs =
  process_request_def aprocess_request_def process_with_def orchestration_failed_def
  generate_code_def agenerate_code_def generate_with_def
  explain_code_def aexplain_code_def explain_with_def
  chunk_code_def achunk_code_def chunk_with_def
  fixed_env_def ok_env_def Let_def

lemmas model_defs =
  add_request_def add_response_def model_generated_def model_explained_def model_chunked_def

lemma add_run:
  "fst (process_request (ok_env forward_clock) add_request []) = Inr add_response"
  "fst (aprocess_request (ok_env forward_clock) add_request []) = Inr add_response"
  by (simp_all add: run_defs model_defs forward_clock_def round2_values)

lemma add_run_backward:
  "fst (process_request (ok_env backward_clock) add_request [])
     = Inr (add_response\<lparr>processing_time_seconds := - 6\<rparr>)"
  by (simp add: run_defs model_defs backward_clock_def round2_values)

section \<open>The claims\<close>

text \<open>
  C1. In every successful run of the orchestrator, synchronous or asynchronous, the three
  stage outputs carry the language of the request; the explanation and the chunking
  carry the date of the generated code; and the chunking carries the overall explanation
  of the explanation stage. This holds whatever the external model returns.
\<close>

theorem pinned_metadata_propagates:
  assumes "process_request env request tr = (Inr r, tr')
           \<or> aprocess_request env request tr = (Inr r, tr')"
  shows "CodeGenerationOutput.language (generated_code r) = CodeGenerationRequest.language request
       \<and> LineExplanationOutput.language (line_explanations r) = CodeGenerationRequest.language request
       \<and> CodeChunkOutput.language (chunked_code r) = CodeGenerationRequest.language request
       \<and> LineExplanationOutput.date (line_explanations r) = CodeGenerationOutput.date (generated_code r)
       \<and> CodeChunkOutput.date (chunked_code r) = CodeGenerationOutput.date (generated_code r)
       \<and> CodeChunkOutput.explanation (chunked_code r)
           = LineExplanationOutput.explanation (line_explanations r)"
proof -
  from orchestrator_unfold [OF assms] obtain fa f1 f2 f3 where
    run: "process_with fa (generate_with f1) (explain_with f2) (chunk_with f3) env request tr
            = (Inr r, tr')"
    by blast
  note p = pinned_fields [OF run]
  from p show ?thesis by simp
qed

theorem pinned_metadata_propagates_witness:
  "process_request (ok_env forward_clock) add_request []
     = (Inr add_response, snd (process_request (ok_env forward_clock) add_request []))
   \<and> CodeGenerationOutput.language (generated_code add_response) = ''python''
   \<and> LineExplanationOutput.language (line_explanations add_response) = ''python''
   \<and> CodeChunkOutput.language (chunked_code add_response) = ''python''
   \<and> CodeGenerationOutput.date (generated_code add_response) = ''2025-10-31T12:00:00''
   \<and> LineExplanationOutput.date (line_explanations add_response) = ''2025-10-31T12:00:00''
   \<and> CodeChunkOutput.date (chunked_code add_response) = ''2025-10-31T12:00:00''
   \<and> LineExplanationOutput.explanation (line_explanations add_response) = ''Adds two numbers''
   \<and> CodeChunkOutput.explanation (chunked_code add_response) = ''Adds two numbers''"
proof -
  have run: "process_request (ok_env forward_clock) add_request []
     = (Inr add_response, snd (process_request (ok_env forward_clock) add_request []))"
    using add_run(1) by (simp add: prod_eq_iff)
  have lang: "CodeGenerationRequest.language add_request = ''python''"
    by (simp add: add_request_def)
  have d: "CodeGenerationOutput.date (generated_code add_response) = ''2025-10-31T12:00:00''"
    and e: "LineExplanationOutput.explanation (line_explanations add_response) = ''Adds two numbers''"
    by (simp_all add: model_defs)
  from pinned_metadata_propagates [OF disjI1, OF run] run lang d e
  show ?thesis by simp
qed

text \<open>
  C5. When the model's answer to stage 1 is accepted, \<open>generate_code\<close> and
  \<open>agenerate_code\<close> return it with the language of the request; its date is the time the
  stage read on entry when the model's date is empty, and the model's date otherwise; the
  code text is the model's.
\<close>

theorem generation_postprocessing:
  assumes "generator_run env (tr @ [DatetimeNow]) (CodeGeneratorAgent_build_prompt request)
             = Inr content"
    and "extract_content content = Inr out"
  shows "\<exists>out'. fst (generate_code env request tr) = Inr out'
             \<and> fst (agenerate_code env request tr) = Inr out'
             \<and> CodeGenerationOutput.language out' = CodeGenerationRequest.language request
             \<and> (CodeGenerationOutput.date out = []
                  \<longrightarrow> CodeGenerationOutput.date out' = datetime_now_isoformat env tr)
             \<and> (CodeGenerationOutput.date out \<noteq> []
                  \<longrightarrow> CodeGenerationOutput.date out' = CodeGenerationOutput.date out)
             \<and> CodeGenerationOutput.code out' = CodeGenerationOutput.code out"
  unfolding generate_code_def agenerate_code_def
  by (simp add: generate_with_ok [OF assms])

theorem generation_postprocessing_witness:
  "fst (generate_code (ok_env forward_clock) add_request [])
     = Inr (model_generated\<lparr>CodeGenerationOutput.date := ''2025-10-31T12:00:00'',
                            CodeGenerationOutput.language := ''python''\<rparr>)
   \<and> CodeGenerationOutput.date model_generated = []
   \<and> CodeGenerationOutput.language model_generated = ''Python 3''
   \<and> CodeGenerationRequest.language add_request = ''python''
   \<and> datetime_now_isoformat (ok_env forward_clock) [] = ''2025-10-31T12:00:00''"
proof -
  have a: "generator_run (ok_env forward_clock) ([] @ [DatetimeNow])
             (CodeGeneratorAgent_build_prompt add_request) = Inr (Instance model_generated)"
    by (simp add: ok_env_def fixed_env_def)
  have b: "extract_content (Instance model_generated) = Inr model_generated"
    by simp
  from generation_postprocessing [OF a b] obtain out' where
    r: "fst (generate_code (ok_env forward_clock) add_request []) = Inr out'" and
    l: "CodeGenerationOutput.language out' = CodeGenerationRequest.language add_request" and
    d: "CodeGenerationOutput.date model_generated = []
          \<longrightarrow> CodeGenerationOutput.date out' = datetime_now_isoformat (ok_env forward_clock) []" and
    c: "CodeGenerationOutput.code out' = CodeGenerationOutput.code model_generated"
    by blast
  have e: "CodeGenerationOutput.date model_generated = []"
    "CodeGenerationOutput.language model_generated = ''Python 3''"
    "CodeGenerationRequest.language add_request = ''python''"
    "datetime_now_isoformat (ok_env forward_clock) [] = ''2025-10-31T12:00:00''"
    by (simp_all add: model_defs ok_env_def fixed_env_def)
  from l d c e have "out' = model_generated\<lparr>CodeGenerationOutput.date := ''2025-10-31T12:00:00'',
                            CodeGenerationOutput.language := ''python''\<rparr>"
    by simp
  with r e show ?thesis by simp
qed

text \<open>
  C6. When the model's answer to stage 2 or stage 3 is accepted, the stage returns that
  answer with the pinned fields overwritten and nothing else changed: date and language
  in \<open>explain_code\<close> and \<open>aexplain_code\<close>; date, language and overall explanation in
  \<open>chunk_code\<close> and \<open>achunk_code\<close>. The list of lines and the list of chunks are the
  model's, whatever their line numbers and ranges are.
\<close>

theorem stage_outputs_pass_through:
  "(explainer_run env tr (LineExplainerAgent_build_prompt code_output) = Inr content2
      \<and> extract_content content2 = Inr out2
    \<longrightarrow> fst (explain_code env code_output tr)
          = Inr (out2\<lparr>LineExplanationOutput.date := CodeGenerationOutput.date code_output,
                       LineExplanationOutput.language := CodeGenerationOutput.language code_output\<rparr>)
        \<and> fst (aexplain_code env code_output tr) = fst (explain_code env code_output tr)
        \<and> LineExplanationOutput.code (projr (fst (explain_code env code_output tr)))
            = LineExplanationOutput.code out2
        \<and> LineExplanationOutput.explanation (projr (fst (explain_code env code_output tr)))
            = LineExplanationOutput.explanation out2)
   \<and> (chunker_run env tr (CodeChunkerAgent_build_prompt line_output) = Inr content3
        \<and> extract_content content3 = Inr out3
      \<longrightarrow> fst (chunk_code env line_output tr)
            = Inr (out3\<lparr>CodeChunkOutput.date := LineExplanationOutput.date line_output,
                         CodeChunkOutput.language := LineExplanationOutput.language line_output,
                         CodeChunkOutput.explanation := LineExplanationOutput.explanation line_output\<rparr>)
          \<and> fst (achunk_code env line_output tr) = fst (chunk_code env line_output tr)
          \<and> CodeChunkOutput.code (projr (fst (chunk_code env line_output tr)))
              = CodeChunkOutput.code out3)"
  unfolding explain_code_def aexplain_code_def chunk_code_def achunk_code_def
  by (simp add: explain_with_ok chunk_with_ok)

theorem stage_outputs_pass_through_witness:
  "fst (explain_code (ok_env forward_clock) model_generated [])
     = Inr (model_explained\<lparr>LineExplanationOutput.date := [],
                            LineExplanationOutput.language := ''Python 3''\<rparr>)
   \<and> map line (LineExplanationOutput.code (projr (fst (explain_code (ok_env forward_clock) model_generated []))))
       = [5, 3]
   \<and> fst (chunk_code (ok_env forward_clock) model_explained [])
       = Inr (model_chunked\<lparr>CodeChunkOutput.date := ''1999-01-01T00:00:00'',
                            CodeChunkOutput.language := ''ruby'',
                            CodeChunkOutput.explanation := ''Adds two numbers''\<rparr>)
   \<and> map (\<lambda>c. (first_line c, last_line c))
         (CodeChunkOutput.code (projr (fst (chunk_code (ok_env forward_clock) model_explained []))))
       = [(4, 2), (1, 3)]"
proof -
  have a2: "explainer_run (ok_env forward_clock) [] (LineExplainerAgent_build_prompt model_generated)
              = Inr (Construct (Inr model_explained))
            \<and> extract_content (Construct (Inr model_explained)) = Inr model_explained"
    by (simp add: ok_env_def fixed_env_def)
  have a3: "chunker_run (ok_env forward_clock) [] (CodeChunkerAgent_build_prompt model_explained)
              = Inr (Instance model_chunked)
            \<and> extract_content (Instance model_chunked) = Inr model_chunked"
    by (simp add: ok_env_def fixed_env_def)
  have m: "CodeGenerationOutput.date model_generated = []"
    "CodeGenerationOutput.language model_generated = ''Python 3''"
    "LineExplanationOutput.date model_explained = ''1999-01-01T00:00:00''"
    "LineExplanationOutput.language model_explained = ''ruby''"
    "LineExplanationOutput.explanation model_explained = ''Adds two numbers''"
    "map line (LineExplanationOutput.code model_explained) = [5, 3]"
    "map (\<lambda>c. (first_line c, last_line c)) (CodeChunkOutput.code model_chunked) = [(4, 2), (1, 3)]"
    by (simp_all add: model_defs)
  from stage_outputs_pass_through
         [of "ok_env forward_clock" "[]" model_generated "Construct (Inr model_explained)"
             model_explained model_explained "Instance model_chunked" model_chunked]
       a2 a3 m
  show ?thesis by simp
qed

text \<open>
  C10. The line count that the explanation stage writes into its prompt is the number of
  line breaks in the code text plus one, which is the length of the split of the text at
  line breaks; the prompt ends with that sentence. For an empty code text the count is 1.
\<close>

theorem explanation_prompt_line_count:
  "length (split (CHR 0x0A) (CodeGenerationOutput.code c))
     = count_list (CodeGenerationOutput.code c) (CHR 0x0A) + 1
   \<and> suffix (''The code has ''
               @ str_nat (count_list (CodeGenerationOutput.code c) (CHR 0x0A) + 1)
               @ '' line(s) total.'')
        (LineExplainerAgent_build_prompt c)
   \<and> suffix ''The code has 1 line(s) total.''
        (LineExplainerAgent_build_prompt (c\<lparr>CodeGenerationOutput.code := []\<rparr>))"
proof (intro conjI)
  show "length (split (CHR 0x0A) (CodeGenerationOutput.code c))
          = count_list (CodeGenerationOutput.code c) (CHR 0x0A) + 1"
    by (rule split_length)
  show "suffix (''The code has ''
                  @ str_nat (count_list (CodeGenerationOutput.code c) (CHR 0x0A) + 1)
                  @ '' line(s) total.'')
          (LineExplainerAgent_build_prompt c)"
    using explain_prompt_suffix [of c] by (simp only: split_length)
  show "suffix ''The code has 1 line(s) total.''
          (LineExplainerAgent_build_prompt (c\<lparr>CodeGenerationOutput.code := []\<rparr>))"
    using explain_prompt_suffix [of "c\<lparr>CodeGenerationOutput.code := []\<rparr>"]
    by (simp add: str_nat_Suc_0)
qed

theorem explanation_prompt_line_count_witness:
  "length (split (CHR 0x0A) (CodeGenerationOutput.code model_generated)) = 2
   \<and> suffix ''The code has 2 line(s) total.'' (LineExplainerAgent_build_prompt model_generated)"
proof -
  have c: "count_list (CodeGenerationOutput.code model_generated) (CHR 0x0A) = 1"
    by (simp add: model_generated_def)
  have s: "str_nat (Suc (Suc 0)) = ''2''"
    by (simp add: str_nat.simps digit_char_def)
  from explanation_prompt_line_count [of model_generated] c s
  show ?thesis by simp
qed


lemma validate_body_prompt:
  "validate_body b = Some request \<Longrightarrow> b ''prompt'' = Some (JString (prompt request))"
  by (auto simp add: validate_body_def split: option.splits json.splits)

lemma validate_body_no_prompt: "b ''prompt'' = None \<Longrightarrow> validate_body b = None"
  by (simp add: validate_body_def)

lemma handler_blank:
  "list_all isspace (prompt request)
   \<Longrightarrow> generate_educational_code env request tr = (HTTPException 400 ''Prompt cannot be empty'', tr)"
  using blank_prompt_iff [of "prompt request"]
  by (simp add: generate_educational_code_def)

lemma handler_failure:
  "\<not> list_all isspace (prompt request) \<Longrightarrow> aprocess_request env request tr = (Inl e, tr')
   \<Longrightarrow> generate_educational_code env request tr
         = (HTTPException 500 (''Code generation failed: '' @ e), tr')"
  using blank_prompt_iff [of "prompt request"]
  by (simp add: generate_educational_code_def)

lemma failing_explanation_arun:
  "fst (aprocess_request (failing_env Explanation) add_request [])
     = Inl ''Async orchestration failed after 0.10s: Async line explanation failed: boom''"
  by (simp add: run_defs forward_clock_def format_2f_values)

lemma add_request_not_blank: "\<not> list_all isspace (prompt add_request)"
  by (simp add: add_request_def isspace_def)

text \<open>
  C4. For POST /api/v1/generate: a body without the \<open>prompt\<close> field is rejected by the
  schema with status 422 and the handler has no effect; a body the schema accepts whose
  prompt is empty or consists of whitespace gets status 400, and nothing of the
  orchestrator runs (the trace of effects is unchanged); a failure of the orchestrator
  gets status 500 with the text of the failure in the detail.
\<close>

theorem generate_endpoint_errors:
  "(b ''prompt'' = None
      \<longrightarrow> post_generate env b tr = (RequestValidationError, tr)
        \<and> status_code (fst (post_generate env b tr)) = 422)
   \<and> (b ''prompt'' = Some (JString p) \<and> list_all isspace p \<and> validate_body b = Some request
      \<longrightarrow> post_generate env b tr = (HTTPException 400 ''Prompt cannot be empty'', tr)
        \<and> status_code (fst (post_generate env b tr)) = 400)
   \<and> (validate_body b = Some request \<and> \<not> list_all isspace (prompt request)
        \<and> aprocess_request env request tr = (Inl e, tr')
      \<longrightarrow> post_generate env b tr = (HTTPException 500 (''Code generation failed: '' @ e), tr')
        \<and> status_code (fst (post_generate env b tr)) = 500)"
proof (intro conjI impI)
  assume "b ''prompt'' = None"
  then show "post_generate env b tr = (RequestValidationError, tr)"
    by (simp add: post_generate_def validate_body_no_prompt)
  then show "status_code (fst (post_generate env b tr)) = 422"
    by simp
next
  assume a: "b ''prompt'' = Some (JString p) \<and> list_all isspace p \<and> validate_body b = Some request"
  with validate_body_prompt [of b request] have "list_all isspace (prompt request)"
    by simp
  with a show "post_generate env b tr = (HTTPException 400 ''Prompt cannot be empty'', tr)"
    by (simp add: post_generate_def handler_blank)
  then show "status_code (fst (post_generate env b tr)) = 400"
    by simp
next
  assume a: "validate_body b = Some request \<and> \<not> list_all isspace (prompt request)
        \<and> aprocess_request env request tr = (Inl e, tr')"
  then show "post_generate env b tr
               = (HTTPException 500 (''Code generation failed: '' @ e), tr')"
    by (simp add: post_generate_def handler_failure)
  then show "status_code (fst (post_generate env b tr)) = 500"
    by simp
qed

theorem generate_endpoint_errors_witness:
  "post_generate (ok_env forward_clock) [''language'' \<mapsto> JString ''python''] []
     = (RequestValidationError, [])
   \<and> post_generate (ok_env forward_clock)
        [''prompt'' \<mapsto> JString [], ''language'' \<mapsto> JString ''python''] []
     = (HTTPException 400 ''Prompt cannot be empty'', [])
   \<and> post_generate (ok_env forward_clock) [''prompt'' \<mapsto> JString ''   ''] []
     = (HTTPException 400 ''Prompt cannot be empty'', [])
   \<and> fst (post_generate (failing_env Explanation)
            [''prompt'' \<mapsto> JString ''Create a function to add two numbers''] [])
     = HTTPException 500
         ''Code generation failed: Async orchestration failed after 0.10s: Async line explanation failed: boom''"
proof -
  have v1: "[''language'' \<mapsto> JString ''python''] ''prompt'' = None"
    by simp
  have v2: "[''prompt'' \<mapsto> JString [], ''language'' \<mapsto> JString ''python''] ''prompt''
              = Some (JString [])
            \<and> list_all isspace []
            \<and> validate_body [''prompt'' \<mapsto> JString [], ''language'' \<mapsto> JString ''python'']
                = Some \<lparr>prompt = [], language = ''python'', context = None\<rparr>"
    by (simp add: validate_body_def)
  have v3: "[''prompt'' \<mapsto> JString ''   ''] ''prompt'' = Some (JString ''   '')
            \<and> list_all isspace ''   ''
            \<and> validate_body [''prompt'' \<mapsto> JString ''   '']
                = Some \<lparr>prompt = ''   '', language = ''python'', context = None\<rparr>"
    by (simp add: validate_body_def isspace_def)
  have v4: "validate_body [''prompt'' \<mapsto> JString ''Create a function to add two numbers'']
              = Some add_request
            \<and> \<not> list_all isspace (prompt add_request)
            \<and> aprocess_request (failing_env Explanation) add_request []
                = (Inl ''Async orchestration failed after 0.10s: Async line explanation failed: boom'',
                   snd (aprocess_request (failing_env Explanation) add_request []))"
    using failing_explanation_arun add_request_not_blank
    by (simp add: validate_body_def add_request_def prod_eq_iff)
  note t = generate_endpoint_errors
  from t [of "[''language'' \<mapsto> JString ''python'']" "ok_env forward_clock" "[]"] v1
  have r1: "post_generate (ok_env forward_clock) [''language'' \<mapsto> JString ''python''] []
              = (RequestValidationError, [])"
    by blast
  from t [of "[''prompt'' \<mapsto> JString [], ''language'' \<mapsto> JString ''python'']" _ _ "[]"
             "\<lparr>prompt = [], language = ''python'', context = None\<rparr>"] v2
  have r2: "post_generate (ok_env forward_clock)
              [''prompt'' \<mapsto> JString [], ''language'' \<mapsto> JString ''python''] []
              = (HTTPException 400 ''Prompt cannot be empty'', [])"
    by blast
  from t [of "[''prompt'' \<mapsto> JString ''   '']" _ _ "''   ''"
             "\<lparr>prompt = ''   '', language = ''python'', context = None\<rparr>"] v3
  have r3: "post_generate (ok_env forward_clock) [''prompt'' \<mapsto> JString ''   ''] []
              = (HTTPException 400 ''Prompt cannot be empty'', [])"
    by blast
  from t [of "[''prompt'' \<mapsto> JString ''Create a function to add two numbers'']"
             "failing_env Explanation" "[]" _ add_request] v4
  have r4: "fst (post_generate (failing_env Explanation)
                  [''prompt'' \<mapsto> JString ''Create a function to add two numbers''] [])
              = HTTPException 500
                  (''Code generation failed: ''
                   @ ''Async orchestration failed after 0.10s: Async line explanation failed: boom'')"
    by (metis fst_conv)
  from r1 r2 r3 r4 show ?thesis by simp
qed

lemma successful_run_shape:
  assumes "process_with fa (generate_with f1) (explain_with f2) (chunk_with f3) env request tr
             = (Inr r, tr')"
  shows "\<exists>tr5. tr' = tr5 @ [TimeRead]
           \<and> processing_time_seconds r = round2 (time_time env tr5 - time_time env tr)
           \<and> agent_calls tr5 = agent_calls tr @ [Generation, Explanation, Chunking]"
proof -
  from process_with_Inr [OF assms] obtain tr3 tr4 tr5 where
    g: "generate_with f1 env request (tr @ [TimeRead, Uuid4]) = (Inr (generated_code r), tr3)" and
    e: "explain_with f2 env (generated_code r) tr3 = (Inr (line_explanations r), tr4)" and
    c: "chunk_with f3 env (line_explanations r) tr4 = (Inr (chunked_code r), tr5)" and
    t: "processing_time_seconds r = round2 (time_time env tr5 - time_time env tr)" and
    tr': "tr' = tr5 @ [TimeRead]"
    by blast
  from stage_calls_3 [OF g e c]
  have "agent_calls tr5 = agent_calls tr @ [Generation, Explanation, Chunking]"
    by (simp add: agent_calls_append)
  with t tr' show ?thesis by blast
qed

text \<open>
  C7, as stated: the processing time of a successful response is never negative. It is
  negative when the clock is set back during the run: with readings 100 on entry and 94
  after stage 3 the response carries -6.
\<close>

theorem processing_time_counterexample:
  "fst (process_request (ok_env backward_clock) add_request [])
     = Inr (add_response\<lparr>processing_time_seconds := - 6\<rparr>)
   \<and> \<not> 0 \<le> processing_time_seconds (add_response\<lparr>processing_time_seconds := - 6\<rparr>)"
  using add_run_backward by simp

text \<open>
  C7, amended. In every successful run the trace ends with the second clock reading,
  taken after the three stages were called, once each and in order; the first reading
  is taken on entry, before any of them. The processing time is the difference of the two
  readings rounded to two decimal places, and it is non-negative whenever the second
  reading is not earlier than the first.
\<close>

theorem processing_time_is_rounded_elapsed:
  assumes "process_request env request tr = (Inr r, tr')
           \<or> aprocess_request env request tr = (Inr r, tr')"
  shows "tr' = butlast tr' @ [TimeRead]
       \<and> agent_calls (butlast tr') = agent_calls tr @ [Generation, Explanation, Chunking]
       \<and> processing_time_seconds r = round2 (time_time env (butlast tr') - time_time env tr)
       \<and> (time_time env tr \<le> time_time env (butlast tr') \<longrightarrow> 0 \<le> processing_time_seconds r)"
proof -
  from orchestrator_unfold [OF assms] obtain fa f1 f2 f3 where
    "process_with fa (generate_with f1) (explain_with f2) (chunk_with f3) env request tr
       = (Inr r, tr')"
    by blast
  from successful_run_shape [OF this] obtain tr5 where
    tr': "tr' = tr5 @ [TimeRead]" and
    t: "processing_time_seconds r = round2 (time_time env tr5 - time_time env tr)" and
    c: "agent_calls tr5 = agent_calls tr @ [Generation, Explanation, Chunking]"
    by blast
  from tr' have b: "butlast tr' = tr5" by simp
  have "0 \<le> processing_time_seconds r" if "time_time env tr \<le> time_time env tr5"
    using that t by (simp add: round2_nonneg)
  with tr' t c b show ?thesis by simp
qed

theorem processing_time_is_rounded_elapsed_witness:
  "process_request (ok_env forward_clock) add_request []
     = (Inr add_response, snd (process_request (ok_env forward_clock) add_request []))
   \<and> time_time (ok_env forward_clock) []
       \<le> time_time (ok_env forward_clock)
            (butlast (snd (process_request (ok_env forward_clock) add_request [])))
   \<and> processing_time_seconds add_response = 3 / 25
   \<and> 0 \<le> processing_time_seconds add_response"
proof -
  have run: "process_request (ok_env forward_clock) add_request []
     = (Inr add_response, snd (process_request (ok_env forward_clock) add_request []))"
    using add_run(1) by (simp add: prod_eq_iff)
  have le: "time_time (ok_env forward_clock) [] \<le> time_time (ok_env forward_clock) tr" for tr
    by (simp add: ok_env_def fixed_env_def forward_clock_def)
  have v: "processing_time_seconds add_response = 3 / 25"
    by (simp add: add_response_def)
  from processing_time_is_rounded_elapsed [OF disjI1, OF run] le run v
  show ?thesis by simp
qed

text \<open>
  C8, as stated: in a successful response a line has a null explanation exactly when its
  text is blank. The run below succeeds although the model left a line of code
  unexplained and explained a line of three spaces.
\<close>

theorem blank_lines_null_counterexample:
  "fst (process_request (ok_env forward_clock) add_request []) = Inr add_response
   \<and> LineExplanationOutput.code (line_explanations add_response)
       = [\<lparr>line = 5, line_code = ''def add(a, b):'', line_explanation = None\<rparr>,
          \<lparr>line = 3, line_code = ''   '', line_explanation = Some ''Indentation only''\<rparr>]
   \<and> \<not> blank_lines_null (LineExplanationOutput.code (line_explanations add_response))"
  using add_run(1)
  by (simp add: model_defs blank_lines_null_def blank_def strip_def isspace_def)

text \<open>
  C8, amended. The explanation stage asks the model, in its prompt, to set the explanation
  of blank lines to null, and returns the lines as the model gave them: an explanation is
  null in the stage's output exactly where the model returned null, so the rule holds of
  the output exactly when it holds of the model's answer.
\<close>

theorem line_explanations_are_the_models:
  assumes "explain_code env code_output tr = (Inr line_output, tr')
           \<or> aexplain_code env code_output tr = (Inr line_output, tr')"
  shows "sublist ''- Blank lines or lines with only whitespace should have line_explanation set to null''
           (LineExplainerAgent_build_prompt code_output)
       \<and> (\<exists>content out.
             explainer_run env tr (LineExplainerAgent_build_prompt code_output) = Inr content
             \<and> extract_content content = Inr out
             \<and> LineExplanationOutput.code line_output = LineExplanationOutput.code out
             \<and> blank_lines_null (LineExplanationOutput.code line_output)
                 = blank_lines_null (LineExplanationOutput.code out))"
proof -
  from assms obtain f2 where "explain_with f2 env code_output tr = (Inr line_output, tr')"
    unfolding explain_code_def aexplain_code_def by blast
  from explain_with_Inr [OF this] obtain content out where
    "explainer_run env tr (LineExplainerAgent_build_prompt code_output) = Inr content"
    "extract_content content = Inr out"
    "line_output = out\<lparr>LineExplanationOutput.date := CodeGenerationOutput.date code_output,
                       LineExplanationOutput.language := CodeGenerationOutput.language code_output\<rparr>"
    by blast
  moreover from this(3)
  have "LineExplanationOutput.code line_output = LineExplanationOutput.code out"
    by simp
  ultimately show ?thesis
    using explain_prompt_guideline [of code_output] by auto
qed

theorem line_explanations_are_the_models_witness:
  "explain_code (ok_env forward_clock) model_generated []
     = (Inr (model_explained\<lparr>LineExplanationOutput.date := [],
                             LineExplanationOutput.language := ''Python 3''\<rparr>),
        after_explanation model_generated [])
   \<and> sublist ''- Blank lines or lines with only whitespace should have line_explanation set to null''
        (LineExplainerAgent_build_prompt model_generated)
   \<and> LineExplanationOutput.code
        (model_explained\<lparr>LineExplanationOutput.date := [],
                         LineExplanationOutput.language := ''Python 3''\<rparr>)
       = LineExplanationOutput.code model_explained"
proof -
  have run: "explain_code (ok_env forward_clock) model_generated []
     = (Inr (model_explained\<lparr>LineExplanationOutput.date := [],
                             LineExplanationOutput.language := ''Python 3''\<rparr>),
        after_explanation model_generated [])"
    by (simp add: explain_code_def explain_with_def ok_env_def fixed_env_def Let_def
          after_explanation_def model_generated_def)
  from line_explanations_are_the_models [OF disjI1, OF run] run
  show ?thesis by simp
qed

lemma fails_1:
  assumes "generate_with f1 env request (tr @ [TimeRead, Uuid4]) = (Inl e, tr3)"
  shows "process_with fa (generate_with f1) (explain_with f2) (chunk_with f3) env request tr
           = (Inl (fa @ format_2f (time_time env tr3 - time_time env tr) @ ''s: '' @ e),
              tr3 @ [TimeRead])
         \<and> agent_calls (tr3 @ [TimeRead]) = agent_calls tr @ [Generation]"
  using assms stage_calls_1 [OF assms]
  by (simp add: process_with_def orchestration_failed_def Let_def)

lemma fails_2:
  assumes "generate_with f1 env request (tr @ [TimeRead, Uuid4]) = (Inr code_output, tr3)"
    and "explain_with f2 env code_output tr3 = (Inl e, tr4)"
  shows "process_with fa (generate_with f1) (explain_with f2) (chunk_with f3) env request tr
           = (Inl (fa @ format_2f (time_time env tr4 - time_time env tr) @ ''s: '' @ e),
              tr4 @ [TimeRead])
         \<and> agent_calls (tr4 @ [TimeRead]) = agent_calls tr @ [Generation, Explanation]"
  using assms stage_calls_2 [OF assms]
  by (simp add: process_with_def orchestration_failed_def Let_def)

lemma fails_3:
  assumes "generate_with f1 env request (tr @ [TimeRead, Uuid4]) = (Inr code_output, tr3)"
    and "explain_with f2 env code_output tr3 = (Inr line_output, tr4)"
    and "chunk_with f3 env line_output tr4 = (Inl e, tr5)"
  shows "process_with fa (generate_with f1) (explain_with f2) (chunk_with f3) env request tr
           = (Inl (fa @ format_2f (time_time env tr5 - time_time env tr) @ ''s: '' @ e),
              tr5 @ [TimeRead])
         \<and> agent_calls (tr5 @ [TimeRead]) = agent_calls tr @ [Generation, Explanation, Chunking]"
  using assms stage_calls_3 [OF assms]
  by (simp add: process_with_def orchestration_failed_def Let_def)

text \<open>
  C2. When a stage raises, the orchestrator raises one exception and returns no output:
  its message is the fixed prefix, the time elapsed between the reading on entry and the
  reading at the failure in the \<open>.2f\<close> format, and the text of the stage's exception.
  The agents called during the run are those of the stages up to the failing one, once
  each: no later stage is called and none is called again. This holds for
  \<open>process_request\<close> and for \<open>aprocess_request\<close>.
\<close>

theorem orchestrator_stops_at_first_failure:
  "(generate_code env request (tr @ [TimeRead, Uuid4]) = (Inl e, tr3)
      \<longrightarrow> process_request env request tr
            = (Inl (''Orchestration failed after ''
                    @ format_2f (time_time env tr3 - time_time env tr) @ ''s: '' @ e),
               tr3 @ [TimeRead])
        \<and> agent_calls (tr3 @ [TimeRead]) = agent_calls tr @ [Generation])
   \<and> (generate_code env request (tr @ [TimeRead, Uuid4]) = (Inr code_output, tr3)
        \<and> explain_code env code_output tr3 = (Inl e, tr4)
      \<longrightarrow> process_request env request tr
            = (Inl (''Orchestration failed after ''
                    @ format_2f (time_time env tr4 - time_time env tr) @ ''s: '' @ e),
               tr4 @ [TimeRead])
        \<and> agent_calls (tr4 @ [TimeRead]) = agent_calls tr @ [Generation, Explanation])
   \<and> (generate_code env request (tr @ [TimeRead, Uuid4]) = (Inr code_output, tr3)
        \<and> explain_code env code_output tr3 = (Inr line_output, tr4)
        \<and> chunk_code env line_output tr4 = (Inl e, tr5)
      \<longrightarrow> process_request env request tr
            = (Inl (''Orchestration failed after ''
                    @ format_2f (time_time env tr5 - time_time env tr) @ ''s: '' @ e),
               tr5 @ [TimeRead])
        \<and> agent_calls (tr5 @ [TimeRead]) = agent_calls tr @ [Generation, Explanation, Chunking])
   \<and> (agenerate_code env request (tr @ [TimeRead, Uuid4]) = (Inl e, tr3)
      \<longrightarrow> aprocess_request env request tr
            = (Inl (''Async orchestration failed after ''
                    @ format_2f (time_time env tr3 - time_time env tr) @ ''s: '' @ e),
               tr3 @ [TimeRead])
        \<and> agent_calls (tr3 @ [TimeRead]) = agent_calls tr @ [Generation])
   \<and> (agenerate_code env request (tr @ [TimeRead, Uuid4]) = (Inr code_output, tr3)
        \<and> aexplain_code env code_output tr3 = (Inl e, tr4)
      \<longrightarrow> aprocess_request env request tr
            = (Inl (''Async orchestration failed after ''
                    @ format_2f (time_time env tr4 - time_time env tr) @ ''s: '' @ e),
               tr4 @ [TimeRead])
        \<and> agent_calls (tr4 @ [TimeRead]) = agent_calls tr @ [Generation, Explanation])
   \<and> (agenerate_code env request (tr @ [TimeRead, Uuid4]) = (Inr code_output, tr3)
        \<and> aexplain_code env code_output tr3 = (Inr line_output, tr4)
        \<and> achunk_code env line_output tr4 = (Inl e, tr5)
      \<longrightarrow> aprocess_request env request tr
            = (Inl (''Async orchestration failed after ''
                    @ format_2f (time_time env tr5 - time_time env tr) @ ''s: '' @ e),
               tr5 @ [TimeRead])
        \<and> agent_calls (tr5 @ [TimeRead]) = agent_calls tr @ [Generation, Explanation, Chunking])"
  unfolding process_request_def aprocess_request_def generate_code_def agenerate_code_def
    explain_code_def aexplain_code_def chunk_code_def achunk_code_def
  by (intro conjI impI; (elim conjE)?;
      (rule fails_1 [THEN conjunct1] fails_2 [THEN conjunct1] fails_3 [THEN conjunct1]
            stage_calls_1 stage_calls_2 stage_calls_3; assumption))


lemmas stage_defs =
  generate_code_def agenerate_code_def generate_with_def
  explain_code_def aexplain_code_def explain_with_def
  chunk_code_def achunk_code_def chunk_with_def
  fixed_env_def Let_def after_generation_def after_explanation_def after_chunking_def

lemma failing_clock:
  "time_time (failing_env s) tr = of_nat (length tr) / 48"
  by (cases s) (simp_all add: fixed_env_def forward_clock_def)

theorem orchestrator_stops_at_first_failure_witness:
  "process_request (failing_env Generation) add_request []
     = (Inl ''Orchestration failed after 0.08s: Code generation failed: boom'',
        after_generation add_request [TimeRead, Uuid4] @ [TimeRead])
   \<and> agent_calls (after_generation add_request [TimeRead, Uuid4] @ [TimeRead]) = [Generation]
   \<and> process_request (failing_env Explanation) add_request []
     = (Inl ''Orchestration failed after 0.10s: Line explanation failed: boom'',
        after_explanation (generated_code add_response)
          (after_generation add_request [TimeRead, Uuid4]) @ [TimeRead])
   \<and> agent_calls (after_explanation (generated_code add_response)
          (after_generation add_request [TimeRead, Uuid4]) @ [TimeRead])
       = [Generation, Explanation]
   \<and> aprocess_request (failing_env Chunking) add_request []
     = (Inl ''Async orchestration failed after 0.12s: Async code chunking failed: boom'',
        after_chunking (line_explanations add_response)
          (after_explanation (generated_code add_response)
            (after_generation add_request [TimeRead, Uuid4])) @ [TimeRead])
   \<and> agent_calls (after_chunking (line_explanations add_response)
          (after_explanation (generated_code add_response)
            (after_generation add_request [TimeRead, Uuid4])) @ [TimeRead])
       = [Generation, Explanation, Chunking]"
proof -
  let ?tr3 = "after_generation add_request [TimeRead, Uuid4]"
  let ?tr4 = "after_explanation (generated_code add_response) ?tr3"
  let ?tr5 = "after_chunking (line_explanations add_response) ?tr4"
  have g1: "generate_code (failing_env Generation) add_request ([] @ [TimeRead, Uuid4])
              = (Inl ''Code generation failed: boom'', ?tr3)"
    by (simp add: stage_defs)
  have g2: "generate_code (failing_env Explanation) add_request ([] @ [TimeRead, Uuid4])
              = (Inr (generated_code add_response), ?tr3)
            \<and> explain_code (failing_env Explanation) (generated_code add_response) ?tr3
              = (Inl ''Line explanation failed: boom'', ?tr4)"
    by (simp add: stage_defs model_defs)
  have g3: "agenerate_code (failing_env Chunking) add_request ([] @ [TimeRead, Uuid4])
              = (Inr (generated_code add_response), ?tr3)
            \<and> aexplain_code (failing_env Chunking) (generated_code add_response) ?tr3
              = (Inr (line_explanations add_response), ?tr4)
            \<and> achunk_code (failing_env Chunking) (line_explanations add_response) ?tr4
              = (Inl ''Async code chunking failed: boom'', ?tr5)"
    by (simp add: stage_defs model_defs)
  have t: "format_2f (of_nat (length ?tr3) / 48 - of_nat (length ([] :: trace)) / 48) = ''0.08''"
    "format_2f (of_nat (length ?tr4) / 48 - of_nat (length ([] :: trace)) / 48) = ''0.10''"
    "format_2f (of_nat (length ?tr5) / 48 - of_nat (length ([] :: trace)) / 48) = ''0.12''"
    by (simp_all add: after_generation_def after_explanation_def after_chunking_def
          format_2f_values)
  note main = orchestrator_stops_at_first_failure
  from main [where env = "failing_env Generation" and request = add_request and tr = "[]"
              and e = "''Code generation failed: boom''" and ?tr3.0 = ?tr3] g1
  have r1: "process_request (failing_env Generation) add_request []
              = (Inl (''Orchestration failed after ''
                      @ format_2f (time_time (failing_env Generation) ?tr3
                                   - time_time (failing_env Generation) [])
                      @ ''s: '' @ ''Code generation failed: boom''),
                 ?tr3 @ [TimeRead])
            \<and> agent_calls (?tr3 @ [TimeRead]) = agent_calls [] @ [Generation]"
    by blast
  from main [where env = "failing_env Explanation" and request = add_request and tr = "[]"
              and e = "''Line explanation failed: boom''" and ?tr3.0 = ?tr3 and ?tr4.0 = ?tr4
              and code_output = "generated_code add_response"] g2
  have r2: "process_request (failing_env Explanation) add_request []
              = (Inl (''Orchestration failed after ''
                      @ format_2f (time_time (failing_env Explanation) ?tr4
                                   - time_time (failing_env Explanation) [])
                      @ ''s: '' @ ''Line explanation failed: boom''),
                 ?tr4 @ [TimeRead])
            \<and> agent_calls (?tr4 @ [TimeRead]) = agent_calls [] @ [Generation, Explanation]"
    by blast
  from main [where env = "failing_env Chunking" and request = add_request and tr = "[]"
              and e = "''Async code chunking failed: boom''" and ?tr3.0 = ?tr3 and ?tr4.0 = ?tr4
              and ?tr5.0 = ?tr5 and code_output = "generated_code add_response"
              and line_output = "line_explanations add_response"] g3
  have r3: "aprocess_request (failing_env Chunking) add_request []
              = (Inl (''Async orchestration failed after ''
                      @ format_2f (time_time (failing_env Chunking) ?tr5
                                   - time_time (failing_env Chunking) [])
                      @ ''s: '' @ ''Async code chunking failed: boom''),
                 ?tr5 @ [TimeRead])
            \<and> agent_calls (?tr5 @ [TimeRead])
                = agent_calls [] @ [Generation, Explanation, Chunking]"
    by blast
  from r1 r2 r3 t show ?thesis
    by (simp only: failing_clock agent_calls.simps append_Nil append_Cons)
qed

lemma generate_with_raised:
  assumes "generate_with failed env request tr = (Inl e, tr')"
  shows "\<exists>u. raised (generator_run env (tr @ [DatetimeNow])
                       (CodeGeneratorAgent_build_prompt request)) = Some u
             \<and> e = failed @ u"
  using assms
  by (auto simp add: generate_with_def Let_def split: sum.splits if_splits
        elim!: extract_content.elims)

lemma explain_with_raised:
  assumes "explain_with failed env code_output tr = (Inl e, tr')"
  shows "\<exists>u. raised (explainer_run env tr (LineExplainerAgent_build_prompt code_output)) = Some u
             \<and> e = failed @ u"
  using assms
  by (auto simp add: explain_with_def Let_def split: sum.splits
        elim!: extract_content.elims)

lemma chunk_with_raised:
  assumes "chunk_with failed env line_output tr = (Inl e, tr')"
  shows "\<exists>u. raised (chunker_run env tr (CodeChunkerAgent_build_prompt line_output)) = Some u
             \<and> e = failed @ u"
  using assms
  by (auto simp add: chunk_with_def Let_def split: sum.splits
        elim!: extract_content.elims)

lemma handler_fails_1:
  assumes "\<not> list_all isspace (prompt request)"
    and "agenerate_code env request (tr @ [TimeRead, Uuid4]) = (Inl e, tr3)"
  shows "generate_educational_code env request tr
           = (HTTPException 500
                (''Code generation failed: Async orchestration failed after ''
                 @ format_2f (time_time env tr3 - time_time env tr) @ ''s: '' @ e),
              tr3 @ [TimeRead])"
proof -
  from assms(2) have "aprocess_request env request tr
      = (Inl (''Async orchestration failed after ''
              @ format_2f (time_time env tr3 - time_time env tr) @ ''s: '' @ e),
         tr3 @ [TimeRead])"
    unfolding aprocess_request_def agenerate_code_def aexplain_code_def achunk_code_def
    by (rule fails_1 [THEN conjunct1])
  from handler_failure [OF assms(1) this] show ?thesis by simp
qed

lemma handler_fails_2:
  assumes "\<not> list_all isspace (prompt request)"
    and "agenerate_code env request (tr @ [TimeRead, Uuid4]) = (Inr code_output, tr3)"
    and "aexplain_code env code_output tr3 = (Inl e, tr4)"
  shows "generate_educational_code env request tr
           = (HTTPException 500
                (''Code generation failed: Async orchestration failed after ''
                 @ format_2f (time_time env tr4 - time_time env tr) @ ''s: '' @ e),
              tr4 @ [TimeRead])"
proof -
  from assms(2,3) have "aprocess_request env request tr
      = (Inl (''Async orchestration failed after ''
              @ format_2f (time_time env tr4 - time_time env tr) @ ''s: '' @ e),
         tr4 @ [TimeRead])"
    unfolding aprocess_request_def agenerate_code_def aexplain_code_def achunk_code_def
    by (rule fails_2 [THEN conjunct1])
  from handler_failure [OF assms(1) this] show ?thesis by simp
qed

lemma handler_fails_3:
  assumes "\<not> list_all isspace (prompt request)"
    and "agenerate_code env request (tr @ [TimeRead, Uuid4]) = (Inr code_output, tr3)"
    and "aexplain_code env code_output tr3 = (Inr line_output, tr4)"
    and "achunk_code env line_output tr4 = (Inl e, tr5)"
  shows "generate_educational_code env request tr
           = (HTTPException 500
                (''Code generation failed: Async orchestration failed after ''
                 @ format_2f (time_time env tr5 - time_time env tr) @ ''s: '' @ e),
              tr5 @ [TimeRead])"
proof -
  from assms(2,3,4) have "aprocess_request env request tr
      = (Inl (''Async orchestration failed after ''
              @ format_2f (time_time env tr5 - time_time env tr) @ ''s: '' @ e),
         tr5 @ [TimeRead])"
    unfolding aprocess_request_def agenerate_code_def aexplain_code_def achunk_code_def
    by (rule fails_3 [THEN conjunct1])
  from handler_failure [OF assms(1) this] show ?thesis by simp
qed

lemma failing_handler_runs:
  "fst (generate_educational_code (failing_env Generation) add_request [])
     = HTTPException 500
         ''Code generation failed: Async orchestration failed after 0.08s: Async code generation failed: boom''"
  "fst (generate_educational_code (failing_env Explanation) add_request [])
     = HTTPException 500
         ''Code generation failed: Async orchestration failed after 0.10s: Async line explanation failed: boom''"
  "fst (generate_educational_code (failing_env Chunking) add_request [])
     = HTTPException 500
         ''Code generation failed: Async orchestration failed after 0.12s: Async code chunking failed: boom''"
  by (simp_all add: generate_educational_code_def run_defs forward_clock_def format_2f_values
        add_request_def strip_def isspace_def)

text \<open>
  C3, as stated: when a stage raises, the detail of the 500 response is the kind of the
  failing stage, \<open>failed:\<close> and the underlying message. When the explanation stage raises
  \<open>boom\<close> the detail begins with \<open>Code generation failed\<close>, as it does when the generation
  or the chunking stage raises; it is not the explanation stage's message.
\<close>

theorem stage_kind_message_counterexample:
  "fst (generate_educational_code (failing_env Explanation) add_request [])
     = HTTPException 500
         ''Code generation failed: Async orchestration failed after 0.10s: Async line explanation failed: boom''
   \<and> fst (generate_educational_code (failing_env Explanation) add_request [])
       \<noteq> HTTPException 500 (stage_kind_message (stage_kind Explanation) ''boom'')
   \<and> fst (generate_educational_code (failing_env Explanation) add_request [])
       \<noteq> HTTPException 500 (stage_kind_message ''Line explanation'' ''boom'')
   \<and> fst (generate_educational_code (failing_env Generation) add_request [])
       = HTTPException 500
           ''Code generation failed: Async orchestration failed after 0.08s: Async code generation failed: boom''
   \<and> fst (generate_educational_code (failing_env Chunking) add_request [])
       = HTTPException 500
           ''Code generation failed: Async orchestration failed after 0.12s: Async code chunking failed: boom''"
  unfolding failing_handler_runs
  by (simp add: stage_kind_message_def)

text \<open>
  C3, amended. For a request whose prompt is not blank, when a stage raises, the endpoint
  answers with one 500 response. Its detail is \<open>Code generation failed: Async
  orchestration failed after\<close>, the elapsed time, \<open>s:\<close> and the message of the failing
  stage; that message is the stage's kind (Async code generation, Async line explanation
  or Async code chunking), \<open>failed:\<close> and the text of the exception raised in the stage.
\<close>

theorem endpoint_failure_detail:
  assumes "\<not> list_all isspace (prompt request)"
  shows
  "(agenerate_code env request (tr @ [TimeRead, Uuid4]) = (Inl e, tr3)
      \<longrightarrow> generate_educational_code env request tr
            = (HTTPException 500
                 (''Code generation failed: Async orchestration failed after ''
                  @ format_2f (time_time env tr3 - time_time env tr) @ ''s: '' @ e),
               tr3 @ [TimeRead])
        \<and> (\<exists>u. raised (generator_run env (tr @ [TimeRead, Uuid4, DatetimeNow])
                          (CodeGeneratorAgent_build_prompt request)) = Some u
               \<and> e = stage_kind_message (stage_kind Generation) u))
   \<and> (agenerate_code env request (tr @ [TimeRead, Uuid4]) = (Inr code_output, tr3)
        \<and> aexplain_code env code_output tr3 = (Inl e, tr4)
      \<longrightarrow> generate_educational_code env request tr
            = (HTTPException 500
                 (''Code generation failed: Async orchestration failed after ''
                  @ format_2f (time_time env tr4 - time_time env tr) @ ''s: '' @ e),
               tr4 @ [TimeRead])
        \<and> (\<exists>u. raised (explainer_run env tr3 (LineExplainerAgent_build_prompt code_output))
                 = Some u
               \<and> e = stage_kind_message (stage_kind Explanation) u))
   \<and> (agenerate_code env request (tr @ [TimeRead, Uuid4]) = (Inr code_output, tr3)
        \<and> aexplain_code env code_output tr3 = (Inr line_output, tr4)
        \<and> achunk_code env line_output tr4 = (Inl e, tr5)
      \<longrightarrow> generate_educational_code env request tr
            = (HTTPException 500
                 (''Code generation failed: Async orchestration failed after ''
                  @ format_2f (time_time env tr5 - time_time env tr) @ ''s: '' @ e),
               tr5 @ [TimeRead])
        \<and> (\<exists>u. raised (chunker_run env tr4 (CodeChunkerAgent_build_prompt line_output))
                 = Some u
               \<and> e = stage_kind_message (stage_kind Chunking) u))"
proof (intro conjI impI; (elim conjE)?)
  assume g: "agenerate_code env request (tr @ [TimeRead, Uuid4]) = (Inl e, tr3)"
  from handler_fails_1 [OF assms g]
  show "generate_educational_code env request tr
            = (HTTPException 500
                 (''Code generation failed: Async orchestration failed after ''
                  @ format_2f (time_time env tr3 - time_time env tr) @ ''s: '' @ e),
               tr3 @ [TimeRead])" .
  from g generate_with_raised [of "''Async code generation failed: ''" env request
           "tr @ [TimeRead, Uuid4]" e tr3]
  show "\<exists>u. raised (generator_run env (tr @ [TimeRead, Uuid4, DatetimeNow])
                          (CodeGeneratorAgent_build_prompt request)) = Some u
               \<and> e = stage_kind_message (stage_kind Generation) u"
    by (simp add: agenerate_code_def stage_kind_message_def)
next
  assume g: "agenerate_code env request (tr @ [TimeRead, Uuid4]) = (Inr code_output, tr3)"
    and x: "aexplain_code env code_output tr3 = (Inl e, tr4)"
  from handler_fails_2 [OF assms g x]
  show "generate_educational_code env request tr
            = (HTTPException 500
                 (''Code generation failed: Async orchestration failed after ''
                  @ format_2f (time_time env tr4 - time_time env tr) @ ''s: '' @ e),
               tr4 @ [TimeRead])" .
  from x explain_with_raised [of "''Async line explanation failed: ''" env code_output tr3 e tr4]
  show "\<exists>u. raised (explainer_run env tr3 (LineExplainerAgent_build_prompt code_output))
                 = Some u
               \<and> e = stage_kind_message (stage_kind Explanation) u"
    by (simp add: aexplain_code_def stage_kind_message_def)
next
  assume g: "agenerate_code env request (tr @ [TimeRead, Uuid4]) = (Inr code_output, tr3)"
    and x: "aexplain_code env code_output tr3 = (Inr line_output, tr4)"
    and c: "achunk_code env line_output tr4 = (Inl e, tr5)"
  from handler_fails_3 [OF assms g x c]
  show "generate_educational_code env request tr
            = (HTTPException 500
                 (''Code generation failed: Async orchestration failed after ''
                  @ format_2f (time_time env tr5 - time_time env tr) @ ''s: '' @ e),
               tr5 @ [TimeRead])" .
  from c chunk_with_raised [of "''Async code chunking failed: ''" env line_output tr4 e tr5]
  show "\<exists>u. raised (chunker_run env tr4 (CodeChunkerAgent_build_prompt line_output))
                 = Some u
               \<and> e = stage_kind_message (stage_kind Chunking) u"
    by (simp add: achunk_code_def stage_kind_message_def)
qed


theorem endpoint_failure_detail_witness:
  "\<not> list_all isspace (prompt add_request)
   \<and> generate_educational_code (failing_env Generation) add_request []
     = (HTTPException 500
          ''Code generation failed: Async orchestration failed after 0.08s: Async code generation failed: boom'',
        after_generation add_request [TimeRead, Uuid4] @ [TimeRead])
   \<and> generate_educational_code (failing_env Explanation) add_request []
     = (HTTPException 500
          ''Code generation failed: Async orchestration failed after 0.10s: Async line explanation failed: boom'',
        after_explanation (generated_code add_response)
          (after_generation add_request [TimeRead, Uuid4]) @ [TimeRead])
   \<and> generate_educational_code (failing_env Chunking) add_request []
     = (HTTPException 500
          ''Code generation failed: Async orchestration failed after 0.12s: Async code chunking failed: boom'',
        after_chunking (line_explanations add_response)
          (after_explanation (generated_code add_response)
            (after_generation add_request [TimeRead, Uuid4])) @ [TimeRead])"
proof -
  let ?tr3 = "after_generation add_request [TimeRead, Uuid4]"
  let ?tr4 = "after_explanation (generated_code add_response) ?tr3"
  let ?tr5 = "after_chunking (line_explanations add_response) ?tr4"
  have g1: "agenerate_code (failing_env Generation) add_request ([] @ [TimeRead, Uuid4])
              = (Inl ''Async code generation failed: boom'', ?tr3)"
    by (simp add: stage_defs)
  have g2: "agenerate_code (failing_env Explanation) add_request ([] @ [TimeRead, Uuid4])
              = (Inr (generated_code add_response), ?tr3)
            \<and> aexplain_code (failing_env Explanation) (generated_code add_response) ?tr3
              = (Inl ''Async line explanation failed: boom'', ?tr4)"
    by (simp add: stage_defs model_defs)
  have g3: "agenerate_code (failing_env Chunking) add_request ([] @ [TimeRead, Uuid4])
              = (Inr (generated_code add_response), ?tr3)
            \<and> aexplain_code (failing_env Chunking) (generated_code add_response) ?tr3
              = (Inr (line_explanations add_response), ?tr4)
            \<and> achunk_code (failing_env Chunking) (line_explanations add_response) ?tr4
              = (Inl ''Async code chunking failed: boom'', ?tr5)"
    by (simp add: stage_defs model_defs)
  have t: "format_2f (of_nat (length ?tr3) / 48 - of_nat (length ([] :: trace)) / 48) = ''0.08''"
    "format_2f (of_nat (length ?tr4) / 48 - of_nat (length ([] :: trace)) / 48) = ''0.10''"
    "format_2f (of_nat (length ?tr5) / 48 - of_nat (length ([] :: trace)) / 48) = ''0.12''"
    by (simp_all add: after_generation_def after_explanation_def after_chunking_def
          format_2f_values)
  note main = endpoint_failure_detail [OF add_request_not_blank]
  from main [where env = "failing_env Generation" and tr = "[]"
               and e = "''Async code generation failed: boom''" and ?tr3.0 = ?tr3] g1
  have r1: "generate_educational_code (failing_env Generation) add_request []
              = (HTTPException 500
                   (''Code generation failed: Async orchestration failed after ''
                    @ format_2f (time_time (failing_env Generation) ?tr3
                                 - time_time (failing_env Generation) [])
                    @ ''s: '' @ ''Async code generation failed: boom''),
                 ?tr3 @ [TimeRead])"
    by blast
  from main [where env = "failing_env Explanation" and tr = "[]"
               and e = "''Async line explanation failed: boom''" and ?tr3.0 = ?tr3
               and ?tr4.0 = ?tr4 and code_output = "generated_code add_response"] g2
  have r2: "generate_educational_code (failing_env Explanation) add_request []
              = (HTTPException 500
                   (''Code generation failed: Async orchestration failed after ''
                    @ format_2f (time_time (failing_env Explanation) ?tr4
                                 - time_time (failing_env Explanation) [])
                    @ ''s: '' @ ''Async line explanation failed: boom''),
                 ?tr4 @ [TimeRead])"
    by blast
  from main [where env = "failing_env Chunking" and tr = "[]"
               and e = "''Async code chunking failed: boom''" and ?tr3.0 = ?tr3
               and ?tr4.0 = ?tr4 and ?tr5.0 = ?tr5
               and code_output = "generated_code add_response"
               and line_output = "line_explanations add_response"] g3
  have r3: "generate_educational_code (failing_env Chunking) add_request []
              = (HTTPException 500
                   (''Code generation failed: Async orchestration failed after ''
                    @ format_2f (time_time (failing_env Chunking) ?tr5
                                 - time_time (failing_env Chunking) [])
                    @ ''s: '' @ ''Async code chunking failed: boom''),
                 ?tr5 @ [TimeRead])"
    by blast
  from r1 r2 r3 t add_request_not_blank show ?thesis
    by (simp only: failing_clock append_Nil append_Cons simp_thms)
qed

lemma succeeds:
  assumes "generate_with f1 env request (tr @ [TimeRead, Uuid4]) = (Inr code_output, tr3)"
    and "explain_with f2 env code_output tr3 = (Inr line_output, tr4)"
    and "chunk_with f3 env line_output tr4 = (Inr chunk_output, tr5)"
  shows "process_with fa (generate_with f1) (explain_with f2) (chunk_with f3) env request tr
           = (Inr \<lparr>request_id = uuid4 env (tr @ [TimeRead]),
                    generated_code = code_output,
                    line_explanations = line_output,
                    chunked_code = chunk_output,
                    processing_time_seconds = round2 (time_time env tr5 - time_time env tr),
                    status = ''success''\<rparr>,
              tr5 @ [TimeRead])"
  using assms
  by (simp add: process_with_def Let_def)

text \<open>
  C9. \<open>validate_line_numbers\<close> holds exactly when every chunk has
  \<open>first_line \<le> last_line\<close>; it holds of the empty list; it accepts chunks that are out
  of order, overlap and leave lines uncovered. No stage and no orchestrator method
  consults it: whatever chunks the model returns, \<open>chunk_code\<close> and \<open>achunk_code\<close>
  return them, and whenever the three stage calls succeed, \<open>process_request\<close> and
  \<open>aprocess_request\<close> return the success response that carries the chunk stage's
  output, whether or not \<open>validate_line_numbers\<close> holds of it. In particular a run
  succeeds with chunks that it rejects.
\<close>

theorem validate_line_numbers_meaning:
  "(validate_line_numbers chunks
      \<longleftrightarrow> (\<forall>chunk \<in> set chunks. first_line chunk \<le> last_line chunk))
   \<and> validate_line_numbers []
   \<and> validate_line_numbers
        [\<lparr>first_line = 7, last_line = 9, line_code = ''c'', line_explanation = None\<rparr>,
         \<lparr>first_line = 1, last_line = 8, line_code = ''a'', line_explanation = None\<rparr>]
   \<and> (chunker_run env tr0 (CodeChunkerAgent_build_prompt lo) = Inr content
        \<and> extract_content content = Inr out
      \<longrightarrow> fst (chunk_code env lo tr0)
            = Inr (out\<lparr>CodeChunkOutput.date := LineExplanationOutput.date lo,
                        CodeChunkOutput.language := LineExplanationOutput.language lo,
                        CodeChunkOutput.explanation := LineExplanationOutput.explanation lo\<rparr>)
        \<and> fst (achunk_code env lo tr0) = fst (chunk_code env lo tr0)
        \<and> CodeChunkOutput.code (projr (fst (chunk_code env lo tr0))) = CodeChunkOutput.code out)
   \<and> (generate_code env request (tr @ [TimeRead, Uuid4]) = (Inr code_output, tr3)
        \<and> explain_code env code_output tr3 = (Inr line_output, tr4)
        \<and> chunk_code env line_output tr4 = (Inr chunk_output, tr5)
      \<longrightarrow> process_request env request tr
            = (Inr \<lparr>request_id = uuid4 env (tr @ [TimeRead]),
                     generated_code = code_output,
                     line_explanations = line_output,
                     chunked_code = chunk_output,
                     processing_time_seconds = round2 (time_time env tr5 - time_time env tr),
                     status = ''success''\<rparr>,
               tr5 @ [TimeRead]))
   \<and> (agenerate_code env request (tr @ [TimeRead, Uuid4]) = (Inr code_output, tr3)
        \<and> aexplain_code env code_output tr3 = (Inr line_output, tr4)
        \<and> achunk_code env line_output tr4 = (Inr chunk_output, tr5)
      \<longrightarrow> aprocess_request env request tr
            = (Inr \<lparr>request_id = uuid4 env (tr @ [TimeRead]),
                     generated_code = code_output,
                     line_explanations = line_output,
                     chunked_code = chunk_output,
                     processing_time_seconds = round2 (time_time env tr5 - time_time env tr),
                     status = ''success''\<rparr>,
               tr5 @ [TimeRead]))
   \<and> fst (process_request (ok_env forward_clock) add_request []) = Inr add_response
   \<and> fst (aprocess_request (ok_env forward_clock) add_request []) = Inr add_response
   \<and> \<not> validate_line_numbers (CodeChunkOutput.code (chunked_code add_response))"
proof (intro conjI)
  show "validate_line_numbers chunks
          \<longleftrightarrow> (\<forall>chunk \<in> set chunks. first_line chunk \<le> last_line chunk)"
    by (simp add: validate_line_numbers_def list_all_iff)
  show "validate_line_numbers []"
    by (simp add: validate_line_numbers_def)
  show "validate_line_numbers
          [\<lparr>first_line = 7, last_line = 9, line_code = ''c'', line_explanation = None\<rparr>,
           \<lparr>first_line = 1, last_line = 8, line_code = ''a'', line_explanation = None\<rparr>]"
    by (simp add: validate_line_numbers_def)
  show "chunker_run env tr0 (CodeChunkerAgent_build_prompt lo) = Inr content
        \<and> extract_content content = Inr out
      \<longrightarrow> fst (chunk_code env lo tr0)
            = Inr (out\<lparr>CodeChunkOutput.date := LineExplanationOutput.date lo,
                        CodeChunkOutput.language := LineExplanationOutput.language lo,
                        CodeChunkOutput.explanation := LineExplanationOutput.explanation lo\<rparr>)
        \<and> fst (achunk_code env lo tr0) = fst (chunk_code env lo tr0)
        \<and> CodeChunkOutput.code (projr (fst (chunk_code env lo tr0))) = CodeChunkOutput.code out"
    unfolding chunk_code_def achunk_code_def
    by (simp add: chunk_with_ok)
  show "generate_code env request (tr @ [TimeRead, Uuid4]) = (Inr code_output, tr3)
        \<and> explain_code env code_output tr3 = (Inr line_output, tr4)
        \<and> chunk_code env line_output tr4 = (Inr chunk_output, tr5)
      \<longrightarrow> process_request env request tr
            = (Inr \<lparr>request_id = uuid4 env (tr @ [TimeRead]),
                     generated_code = code_output,
                     line_explanations = line_output,
                     chunked_code = chunk_output,
                     processing_time_seconds = round2 (time_time env tr5 - time_time env tr),
                     status = ''success''\<rparr>,
               tr5 @ [TimeRead])"
    unfolding process_request_def generate_code_def explain_code_def chunk_code_def
    by (intro impI; elim conjE; rule succeeds; assumption)
  show "agenerate_code env request (tr @ [TimeRead, Uuid4]) = (Inr code_output, tr3)
        \<and> aexplain_code env code_output tr3 = (Inr line_output, tr4)
        \<and> achunk_code env line_output tr4 = (Inr chunk_output, tr5)
      \<longrightarrow> aprocess_request env request tr
            = (Inr \<lparr>request_id = uuid4 env (tr @ [TimeRead]),
                     generated_code = code_output,
                     line_explanations = line_output,
                     chunked_code = chunk_output,
                     processing_time_seconds = round2 (time_time env tr5 - time_time env tr),
                     status = ''success''\<rparr>,
               tr5 @ [TimeRead])"
    unfolding aprocess_request_def agenerate_code_def aexplain_code_def achunk_code_def
    by (intro impI; elim conjE; rule succeeds; assumption)
  show "fst (process_request (ok_env forward_clock) add_request []) = Inr add_response"
    by (rule add_run)
  show "fst (aprocess_request (ok_env forward_clock) add_request []) = Inr add_response"
    by (rule add_run)
  show "\<not> validate_line_numbers (CodeChunkOutput.code (chunked_code add_response))"
    by (simp add: validate_line_numbers_def model_defs)
qed


theorem validate_line_numbers_meaning_witness:
  "validate_line_numbers
     [\<lparr>first_line = 1, last_line = 2, line_code = ''import os'', line_explanation = None\<rparr>,
      \<lparr>first_line = 3, last_line = 3, line_code = ''x = 1'', line_explanation = Some ''Setup''\<rparr>]
   \<and> \<not> validate_line_numbers
        [\<lparr>first_line = 1, last_line = 2, line_code = ''import os'', line_explanation = None\<rparr>,
         \<lparr>first_line = 4, last_line = 3, line_code = ''x = 1'', line_explanation = None\<rparr>]
   \<and> fst (chunk_code (ok_env forward_clock) model_explained [])
       = Inr (model_chunked\<lparr>CodeChunkOutput.date := ''1999-01-01T00:00:00'',
                            CodeChunkOutput.language := ''ruby'',
                            CodeChunkOutput.explanation := ''Adds two numbers''\<rparr>)
   \<and> \<not> validate_line_numbers
         (CodeChunkOutput.code (projr (fst (chunk_code (ok_env forward_clock) model_explained []))))
   \<and> process_request (ok_env forward_clock) add_request []
       = (Inr add_response,
          after_chunking (line_explanations add_response)
            (after_explanation (generated_code add_response)
              (after_generation add_request [TimeRead, Uuid4])) @ [TimeRead])
   \<and> aprocess_request (ok_env forward_clock) add_request []
       = (Inr add_response,
          after_chunking (line_explanations add_response)
            (after_explanation (generated_code add_response)
              (after_generation add_request [TimeRead, Uuid4])) @ [TimeRead])
   \<and> \<not> validate_line_numbers (CodeChunkOutput.code (chunked_code add_response))"
proof -
  let ?good = "[\<lparr>first_line = 1, last_line = 2, line_code = ''import os'', line_explanation = None\<rparr>,
                \<lparr>first_line = 3, last_line = 3, line_code = ''x = 1'', line_explanation = Some ''Setup''\<rparr>]"
  let ?bad = "[\<lparr>first_line = 1, last_line = 2, line_code = ''import os'', line_explanation = None\<rparr>,
               \<lparr>first_line = 4, last_line = 3, line_code = ''x = 1'', line_explanation = None\<rparr>]"
  let ?env = "ok_env forward_clock"
  let ?tr3 = "after_generation add_request [TimeRead, Uuid4]"
  let ?tr4 = "after_explanation (generated_code add_response) ?tr3"
  let ?tr5 = "after_chunking (line_explanations add_response) ?tr4"
  note main = validate_line_numbers_meaning
  from main [of ?good] have w1: "validate_line_numbers ?good"
    by simp
  from main [of ?bad] have w2: "\<not> validate_line_numbers ?bad"
    by simp
  have c: "chunker_run ?env [] (CodeChunkerAgent_build_prompt model_explained)
             = Inr (Instance model_chunked)
           \<and> extract_content (Instance model_chunked) = Inr model_chunked"
    by (simp add: ok_env_def fixed_env_def)
  have m: "LineExplanationOutput.date model_explained = ''1999-01-01T00:00:00''"
    "LineExplanationOutput.language model_explained = ''ruby''"
    "LineExplanationOutput.explanation model_explained = ''Adds two numbers''"
    "\<not> validate_line_numbers (CodeChunkOutput.code model_chunked)"
    by (simp_all add: model_defs validate_line_numbers_def)
  from main [where env = ?env and ?tr0.0 = "[]" and lo = model_explained
               and content = "Instance model_chunked" and out = model_chunked] c m
  have w3: "fst (chunk_code ?env model_explained [])
              = Inr (model_chunked\<lparr>CodeChunkOutput.date := ''1999-01-01T00:00:00'',
                                   CodeChunkOutput.language := ''ruby'',
                                   CodeChunkOutput.explanation := ''Adds two numbers''\<rparr>)
            \<and> \<not> validate_line_numbers
                  (CodeChunkOutput.code (projr (fst (chunk_code ?env model_explained []))))"
    by simp
  have s: "generate_code ?env add_request ([] @ [TimeRead, Uuid4])
             = (Inr (generated_code add_response), ?tr3)
           \<and> explain_code ?env (generated_code add_response) ?tr3
             = (Inr (line_explanations add_response), ?tr4)
           \<and> chunk_code ?env (line_explanations add_response) ?tr4
             = (Inr (chunked_code add_response), ?tr5)"
    by (simp add: stage_defs ok_env_def model_defs)
  have a: "agenerate_code ?env add_request ([] @ [TimeRead, Uuid4])
             = (Inr (generated_code add_response), ?tr3)
           \<and> aexplain_code ?env (generated_code add_response) ?tr3
             = (Inr (line_explanations add_response), ?tr4)
           \<and> achunk_code ?env (line_explanations add_response) ?tr4
             = (Inr (chunked_code add_response), ?tr5)"
    by (simp add: stage_defs ok_env_def model_defs)
  have r: "\<lparr>request_id = uuid4 ?env ([] @ [TimeRead]),
            generated_code = generated_code add_response,
            line_explanations = line_explanations add_response,
            chunked_code = chunked_code add_response,
            processing_time_seconds = round2 (time_time ?env ?tr5 - time_time ?env []),
            status = ''success''\<rparr> = add_response"
    by (simp add: ok_env_def fixed_env_def forward_clock_def round2_values add_response_def
          after_generation_def after_explanation_def after_chunking_def)
  from main [where env = ?env and request = add_request and tr = "[]"
               and code_output = "generated_code add_response" and ?tr3.0 = ?tr3
               and line_output = "line_explanations add_response" and ?tr4.0 = ?tr4
               and chunk_output = "chunked_code add_response" and ?tr5.0 = ?tr5] s r
  have w4: "process_request ?env add_request [] = (Inr add_response, ?tr5 @ [TimeRead])"
    by simp
  from main [where env = ?env and request = add_request and tr = "[]"
               and code_output = "generated_code add_response" and ?tr3.0 = ?tr3
               and line_output = "line_explanations add_response" and ?tr4.0 = ?tr4
               and chunk_output = "chunked_code add_response" and ?tr5.0 = ?tr5] a r
  have w5: "aprocess_request ?env add_request [] = (Inr add_response, ?tr5 @ [TimeRead])"
    by simp
  have w6: "\<not> validate_line_numbers (CodeChunkOutput.code (chunked_code add_response))"
    by (simp add: validate_line_numbers_def model_defs)
  from w1 w2 w3 w4 w5 w6 show ?thesis
    by blast
qed

end
